theory Spec2Isabelle
  imports Main "HOL-Library.AList"
begin

section \<open>Values, documents and the document store\<close>

text \<open>
  Identifiers. The source passes document ids as the string form of a bson ObjectId and
  converts back with \<^verbatim>\<open>ObjectId(...)\<close>; the type \<open>oid\<close> stands for a well-formed id
  in either form, so \<^verbatim>\<open>str(x['_id'])\<close> and \<^verbatim>\<open>ObjectId(s)\<close> are identities here.
  Timestamps (\<^verbatim>\<open>datetime.utcnow()\<close>) are seconds on a clock that is passed in; one call
  of a routine reads the clock once.
\<close>

type_synonym oid = nat
type_synonym time = int

text \<open>
  Python values as they occur in decoded JSON and in the dictionaries the services pass
  around. A dictionary is an association list: \<open>map_of\<close> is \<^verbatim>\<open>d.get(k)\<close>,
  \<open>AList.update\<close> is \<^verbatim>\<open>d[k] = v\<close>. Numbers are integers. \<open>PDate\<close> is a
  \<^verbatim>\<open>datetime\<close> object, \<open>POid\<close> an ObjectId.
\<close>

datatype pyval =
    PNone
  | PBool bool
  | PInt int
  | PStr string
  | PDate time
  | POid oid
  | PList "pyval list"
  | PDict "(string \<times> pyval) list"

type_synonym pydict = "(string \<times> pyval) list"

text \<open>Truth value of a Python object (\<^verbatim>\<open>if x:\<close>, \<^verbatim>\<open>not x\<close>, \<^verbatim>\<open>x or y\<close>).\<close>

fun truthy :: "pyval \<Rightarrow> bool" where
  "truthy PNone = False"
| "truthy (PBool b) = b"
| "truthy (PInt n) = (n \<noteq> 0)"
| "truthy (PStr s) = (s \<noteq> [])"
| "truthy (PDate t) = True"
| "truthy (POid i) = True"
| "truthy (PList xs) = (xs \<noteq> [])"
| "truthy (PDict kvs) = (kvs \<noteq> [])"

text \<open>\<^verbatim>\<open>d.get(k)\<close> and \<^verbatim>\<open>d.get(k, default)\<close> on a dictionary.\<close>

definition dict_get :: "pydict \<Rightarrow> string \<Rightarrow> pyval" where
  "dict_get d k = (case map_of d k of None \<Rightarrow> PNone | Some v \<Rightarrow> v)"

definition dict_get_default :: "pydict \<Rightarrow> string \<Rightarrow> pyval \<Rightarrow> pyval" where
  "dict_get_default d k dflt = (case map_of d k of None \<Rightarrow> dflt | Some v \<Rightarrow> v)"

text \<open>
  Exceptions, each with the text \<^verbatim>\<open>str(e)\<close> gives. \<open>DuplicateKeyError\<close> is what
  pymongo raises when an insert violates a unique index.
\<close>

datatype exn =
    Exception string
  | DuplicateKeyError string
  | KeyError string
  | TypeError string
  | AttributeError string
  | ValueError string

fun str_of_exn :: "exn \<Rightarrow> string" where
  "str_of_exn (Exception s) = s"
| "str_of_exn (DuplicateKeyError s) = s"
| "str_of_exn (KeyError s) = s"
| "str_of_exn (TypeError s) = s"
| "str_of_exn (AttributeError s) = s"
| "str_of_exn (ValueError s) = s"

subsection \<open>Documents\<close>

record user =
  u_id :: oid
  u_email :: "string option"
  u_gmail_refresh_token :: "string option"
  u_calendar_tokens :: "string option"
  u_last_email_check :: "time option"
  u_last_meeting_check :: "time option"
  u_updated_at :: time

record processed_email =
  pe_email_id :: string
  pe_user_id :: oid
  pe_tasks_created :: nat
  pe_processed_at :: time

record task =
  t_id :: oid
  t_title :: pyval
  t_description :: pyval
  t_priority :: pyval
  t_status :: string
  t_deadline :: pyval
  t_assigned_to :: "oid option"
  t_created_by :: "oid option"
  t_email_id :: "string option"
  t_sender_email :: "string option"
  t_user_email :: "string option"
  t_labels :: pyval
  t_source_type :: string
  t_meeting_id :: "oid option"
  t_meeting_title :: "string option"
  t_meeting_date :: "time option"
  t_created_at :: time
  t_updated_at :: time

record meeting =
  m_id :: oid
  m_calendar_event_id :: string
  m_user_id :: oid
  m_title :: string
  m_description :: string
  m_start_time :: time
  m_end_time :: time
  m_attendees :: pyval
  m_meet_link :: string
  m_recording_url :: string
  m_recording_id :: string
  m_processing_status :: string
  m_processed_at :: "time option"
  m_error_message :: "string option"
  m_created_at :: time
  m_updated_at :: time

record meeting_transcript =
  mt_meeting_id :: oid
  mt_user_id :: oid
  mt_transcript_text :: string
  mt_created_at :: time

record meeting_summary =
  ms_meeting_id :: oid
  ms_user_id :: oid
  ms_summary :: pyval
  ms_key_points :: pyval
  ms_decisions_made :: pyval
  ms_action_items :: pyval
  ms_participants_mentioned :: pyval
  ms_topics_discussed :: pyval
  ms_next_meeting :: pyval
  ms_created_at :: time
  ms_updated_at :: time

text \<open>
  The writes the claims count: a checkpoint write on a user and a status write on a
  meeting. The store keeps them, oldest first, in \<open>writes\<close>; nothing reads the list.
\<close>

datatype store_write =
    EmailCheckpoint oid time
  | MeetingCheckpoint oid time
  | MeetingStatus oid string

text \<open>
  The store: one field per collection of \<^verbatim>\<open>get_db()\<close>, each a list of documents in
  insertion order. \<open>next_id\<close> is the next fresh \<^verbatim>\<open>_id\<close> the store hands out.
\<close>

record database =
  users :: "user list"
  tasks :: "task list"
  processed_emails :: "processed_email list"
  meetings :: "meeting list"
  meeting_transcripts :: "meeting_transcript list"
  meeting_summaries :: "meeting_summary list"
  next_id :: nat
  writes :: "store_write list"

section \<open>The processed-email ledger (app/models/processed_email.py)\<close>

text \<open>\<^verbatim>\<open>find_one({'email_id': ..., 'user_id': ...})\<close>: the first stored document with the key pair.\<close>

definition find_processed :: "database \<Rightarrow> string \<Rightarrow> oid \<Rightarrow> processed_email option" where
  "find_processed d email_id user_id =
     find (\<lambda>r. pe_email_id r = email_id \<and> pe_user_id r = user_id) (processed_emails d)"

definition is_processed :: "database \<Rightarrow> string \<Rightarrow> oid \<Rightarrow> bool" where
  "is_processed d email_id user_id = (find_processed d email_id user_id \<noteq> None)"

text \<open>
  \<^verbatim>\<open>create_indexes\<close> (app/__init__.py) declares the unique index
  \<^verbatim>\<open>[('email_id', 1), ('user_id', 1)]\<close> on \<^verbatim>\<open>processed_emails\<close> when the application is
  created, before any poll runs. \<^verbatim>\<open>insert_one\<close> on that collection therefore raises
  DuplicateKeyError, and stores nothing, when a document with the same key pair exists.
\<close>

definition insert_processed_email ::
  "database \<Rightarrow> processed_email \<Rightarrow> (exn + unit) \<times> database" where
  "insert_processed_email d r =
     (if find_processed d (pe_email_id r) (pe_user_id r) \<noteq> None
      then (Inl (DuplicateKeyError ''E11000 duplicate key error''), d)
      else (Inr (), d\<lparr>processed_emails := processed_emails d @ [r]\<rparr>))"

definition mark_as_processed ::
  "database \<Rightarrow> string \<Rightarrow> oid \<Rightarrow> nat \<Rightarrow> time \<Rightarrow> (exn + processed_email) \<times> database" where
  "mark_as_processed d email_id user_id tasks_created now =
     (let processed_email =
            \<lparr>pe_email_id = email_id, pe_user_id = user_id,
             pe_tasks_created = tasks_created, pe_processed_at = now\<rparr>
      in case insert_processed_email d processed_email of
           (Inl e, d') \<Rightarrow> (Inl e, d')
         | (Inr _, d') \<Rightarrow> (Inr processed_email, d'))"

section \<open>Strings\<close>

text \<open>
  Characters are code points below 256. \<open>is_space\<close> is Python's \<^verbatim>\<open>str.isspace\<close> on one
  character, which is also what \<^verbatim>\<open>\s\<close> matches in a \<^verbatim>\<open>str\<close> pattern: 0x09-0x0D,
  0x1C-0x20, 0x85 and 0xA0.
\<close>

definition is_space :: "char \<Rightarrow> bool" where
  "is_space c = (let n = (of_char c :: nat) in
      (9 \<le> n \<and> n \<le> 13) \<or> (28 \<le> n \<and> n \<le> 32) \<or> n = 133 \<or> n = 160)"

text \<open>\<^verbatim>\<open>s.strip()\<close>\<close>

definition strip :: "string \<Rightarrow> string" where
  "strip s = rev (dropWhile is_space (rev (dropWhile is_space s)))"

text \<open>
  \<^verbatim>\<open>s.lower()\<close>: the letters A-Z and the Latin-1 capitals 0xC0-0xDE (without 0xD7) move up
  by 32, which sets bit 5 of the code point.
\<close>

definition char_lower :: "char \<Rightarrow> char" where
  "char_lower c = (let n = (of_char c :: nat) in
      if (65 \<le> n \<and> n \<le> 90) \<or> (192 \<le> n \<and> n \<le> 222 \<and> n \<noteq> 215)
      then (case c of Char b0 b1 b2 b3 b4 b5 b6 b7 \<Rightarrow> Char b0 b1 b2 b3 b4 True b6 b7)
      else c)"

definition lower :: "string \<Rightarrow> string" where
  "lower s = map char_lower s"

section \<open>The mail connector (app/services/gmail_service.py)\<close>

text \<open>
  A Gmail message: its id, its headers as (name, value) pairs in order, and the body text
  that \<^verbatim>\<open>_get_email_body\<close> decodes from the payload.
\<close>

record email_message =
  em_id :: string
  em_headers :: "(string \<times> string) list"
  em_body :: string

record email_data =
  ed_message_id :: string
  ed_subject :: string
  ed_from :: string
  ed_date :: string
  ed_body :: string

text \<open>\<^verbatim>\<open>next((h['value'] for h in headers if h['name'] == name), '')\<close>\<close>

definition header_value :: "(string \<times> string) list \<Rightarrow> string \<Rightarrow> string" where
  "header_value headers name = (case map_of headers name of None \<Rightarrow> [] | Some v \<Rightarrow> v)"

definition parse_email :: "email_message \<Rightarrow> email_data" where
  "parse_email message =
     \<lparr>ed_message_id = em_id message,
      ed_subject = header_value (em_headers message) ''Subject'',
      ed_from = header_value (em_headers message) ''From'',
      ed_date = header_value (em_headers message) ''Date'',
      ed_body = em_body message\<rparr>"

text \<open>
  \<^verbatim>\<open>re.search(r'<(.+?)>', from_header)\<close>. The group needs one character that is not a
  newline, then takes as few more as it can up to a closing bracket (\<open>until_gt\<close>); the
  search tries every opening bracket from the left (\<open>search_angle\<close>).
\<close>

fun until_gt :: "string \<Rightarrow> string option" where
  "until_gt [] = None"
| "until_gt (x # xs) =
     (if x = CHR ''>'' then Some []
      else if x = CHR 0x0A then None
      else map_option ((#) x) (until_gt xs))"

definition group_at :: "string \<Rightarrow> string option" where
  "group_at rest =
     (case rest of
        [] \<Rightarrow> None
      | c # cs \<Rightarrow> if c = CHR 0x0A then None else map_option ((#) c) (until_gt cs))"

fun search_angle :: "string \<Rightarrow> string option" where
  "search_angle [] = None"
| "search_angle (c # cs) =
     (if c = CHR ''<''
      then (case group_at cs of Some g \<Rightarrow> Some g | None \<Rightarrow> search_angle cs)
      else search_angle cs)"

definition extract_sender_email :: "string \<Rightarrow> string" where
  "extract_sender_email from_header =
     (case search_angle from_header of
        Some g \<Rightarrow> g
      | None \<Rightarrow> strip from_header)"

section \<open>External collaborators\<close>

text \<open>
  What the pipeline calls and this repository does not define: the JSON decoder, the date
  parser, the language model, and the Gmail, Calendar and Drive clients. Every theorem
  holds for any behaviour of these.
  \<^item> \<open>json_loads s\<close> is \<^verbatim>\<open>json.loads(s)\<close>; \<open>None\<close> when it raises JSONDecodeError.
  \<^item> \<open>strptime s\<close> is \<^verbatim>\<open>datetime.strptime(s, '%Y-%m-%d')\<close> on a string; \<open>None\<close> when it
    raises ValueError.
  \<^item> \<open>gemini_init\<close> is the exception \<^verbatim>\<open>GeminiService()\<close> raises, if any.
  \<^item> \<open>generate_extraction subject body\<close> is \<^verbatim>\<open>model.generate_content(prompt).text\<close> for the
    prompt \<^verbatim>\<open>_build_extraction_prompt\<close> builds from the two strings; \<open>generate_summary\<close>
    is the same for the prompt \<^verbatim>\<open>summarize_meeting_transcript\<close> builds from the transcript,
    the title and the joined attendee names.
  \<^item> \<open>gmail_build u\<close> is the exception the \<^verbatim>\<open>GmailService\<close> constructor raises, if any;
    \<open>gmail_emails_since u t\<close> is \<^verbatim>\<open>get_emails_since\<close> (which returns \<^verbatim>\<open>[]\<close> on an
    HttpError and lets any other exception through).
  \<^item> \<open>calendar_build_ok\<close> and \<open>drive_build_ok\<close> say whether the client's constructor
    succeeds (\<^verbatim>\<open>get_service_for_user\<close> catches its exception and returns \<^verbatim>\<open>None\<close>).
  \<^item> \<open>calendar_past_meet_events\<close> is \<^verbatim>\<open>get_past_meet_events_with_recordings\<close>;
    \<open>drive_find_recording\<close> and \<open>drive_document_text\<close> are \<^verbatim>\<open>find_meeting_recording\<close> and
    \<^verbatim>\<open>get_document_text\<close>, which catch every exception and return \<^verbatim>\<open>None\<close>.
\<close>

record drive_file =
  df_id :: string
  df_name :: string

record meeting_event =
  me_calendar_event_id :: string
  me_title :: string
  me_description :: string
  me_start_time :: time
  me_end_time :: time
  me_attendees :: pyval
  me_meet_link :: string

record env =
  json_loads :: "string \<Rightarrow> pyval option"
  strptime :: "string \<Rightarrow> time option"
  gemini_init :: "exn option"
  generate_extraction :: "string \<Rightarrow> string \<Rightarrow> exn + string"
  generate_summary :: "string \<Rightarrow> string \<Rightarrow> string \<Rightarrow> exn + string"
  gmail_build :: "user \<Rightarrow> exn option"
  gmail_emails_since :: "user \<Rightarrow> time \<Rightarrow> exn + email_message list"
  calendar_build_ok :: "user \<Rightarrow> bool"
  calendar_past_meet_events :: "user \<Rightarrow> exn + meeting_event list"
  drive_build_ok :: "user \<Rightarrow> bool"
  drive_find_recording :: "user \<Rightarrow> string \<Rightarrow> time \<Rightarrow> drive_file option"
  drive_document_text :: "user \<Rightarrow> string \<Rightarrow> string option"

section \<open>The extraction normalizer (app/services/gemini_service.py)\<close>

text \<open>
  Removing a markdown code fence:
  \<^verbatim>\<open>re.sub(r'^```json\s*', '', s)\<close>, \<^verbatim>\<open>re.sub(r'^```\s*', '', s)\<close> and
  \<^verbatim>\<open>re.sub(r'\s*```$', '', s)\<close>. The last pattern matches at the leftmost position from
  which only white space, the fence and at most one final newline follow.
\<close>

definition sub_fence_json :: "string \<Rightarrow> string" where
  "sub_fence_json s = (if take 7 s = ''```json'' then dropWhile is_space (drop 7 s) else s)"

definition sub_fence_open :: "string \<Rightarrow> string" where
  "sub_fence_open s = (if take 3 s = ''```'' then dropWhile is_space (drop 3 s) else s)"

definition fence_at :: "string \<Rightarrow> bool" where
  "fence_at s = (let r = dropWhile is_space s in r = ''```'' \<or> r = ''```'' @ [CHR 0x0A])"

fun sub_fence_close :: "string \<Rightarrow> string" where
  "sub_fence_close [] = []"
| "sub_fence_close (c # cs) =
     (if fence_at (c # cs)
      then (if last (c # cs) = CHR 0x0A then [CHR 0x0A] else [])
      else c # sub_fence_close cs)"

definition clean_response :: "string \<Rightarrow> string" where
  "clean_response response_text =
     strip (sub_fence_close (sub_fence_open (sub_fence_json (strip response_text))))"

definition valid_priorities :: "pyval list" where
  "valid_priorities = [PStr ''low'', PStr ''medium'', PStr ''high'']"

text \<open>
  The deadline step of the email loop. A deadline that is true but not a string makes
  \<^verbatim>\<open>strptime\<close> raise TypeError, which \<^verbatim>\<open>except ValueError\<close> does not catch.
\<close>

definition parse_task_deadline :: "env \<Rightarrow> pydict \<Rightarrow> exn + pydict" where
  "parse_task_deadline w task =
     (if truthy (dict_get task ''deadline'')
      then (case dict_get task ''deadline'' of
              PStr s \<Rightarrow>
                (case strptime w s of
                   Some deadline \<Rightarrow> Inr (AList.update ''deadline'' (PDate deadline) task)
                 | None \<Rightarrow> Inr (AList.update ''deadline'' PNone task))
            | _ \<Rightarrow> Inl (TypeError ''strptime() argument 1 must be str''))
      else Inr (AList.update ''deadline'' PNone task))"

text \<open>
  The loop \<^verbatim>\<open>for task in tasks\<close> of \<^verbatim>\<open>_parse_gemini_response\<close>: \<open>Inr\<close> is
  \<^verbatim>\<open>validated_tasks\<close>, \<open>Inl\<close> an exception that leaves the loop. An element that is not a
  dictionary has no \<^verbatim>\<open>get\<close>.
\<close>

fun validate_tasks :: "env \<Rightarrow> pyval list \<Rightarrow> exn + pyval list" where
  "validate_tasks w [] = Inr []"
| "validate_tasks w (PDict task # rest) =
     (if \<not> truthy (dict_get task ''title'') \<or> \<not> truthy (dict_get task ''description'')
      then validate_tasks w rest
      else
        let task1 = (if dict_get task ''priority'' \<notin> set valid_priorities
                     then AList.update ''priority'' (PStr ''medium'') task else task)
        in case parse_task_deadline w task1 of
             Inl e \<Rightarrow> Inl e
           | Inr task2 \<Rightarrow>
               (case validate_tasks w rest of
                  Inl e \<Rightarrow> Inl e
                | Inr validated \<Rightarrow> Inr (PDict task2 # validated)))"
| "validate_tasks w (other # rest) = Inl (AttributeError ''object has no attribute get'')"

text \<open>The dictionary \<^verbatim>\<open>_parse_gemini_response\<close> returns for a non-empty \<^verbatim>\<open>validated_tasks\<close>.\<close>

definition extraction_result :: "pyval list \<Rightarrow> pydict" where
  "extraction_result validated_tasks =
     (case hd validated_tasks of
        PDict first \<Rightarrow>
          [(''has_task'', PBool True),
           (''has_tasks'', PBool True),
           (''tasks'', PList validated_tasks),
           (''title'', dict_get first ''title''),
           (''description'', dict_get first ''description''),
           (''priority'', dict_get first ''priority''),
           (''deadline'', dict_get first ''deadline'')]
      | _ \<Rightarrow> [])"

text \<open>
  \<^verbatim>\<open>_parse_gemini_response\<close>: \<open>None\<close> is the Python \<^verbatim>\<open>None\<close> it returns, on each of its
  early returns and in both of its \<^verbatim>\<open>except\<close> clauses.
\<close>

definition parse_gemini_response :: "env \<Rightarrow> string \<Rightarrow> pydict option" where
  "parse_gemini_response w response_text =
     (case json_loads w (clean_response response_text) of
        None \<Rightarrow> None
      | Some (PDict response_data) \<Rightarrow>
          if \<not> truthy (dict_get_default response_data ''has_tasks'' (PBool False)) then None
          else
            (case dict_get_default response_data ''tasks'' (PList []) of
               PList task_list \<Rightarrow>
                 if task_list = [] then None
                 else
                   (case validate_tasks w task_list of
                      Inl e \<Rightarrow> None
                    | Inr validated_tasks \<Rightarrow>
                        if validated_tasks \<noteq> [] then Some (extraction_result validated_tasks)
                        else None)
             | _ \<Rightarrow> None)
      | Some _ \<Rightarrow> None)"

text \<open>\<^verbatim>\<open>extract_task_from_email\<close>: any exception of the model call gives \<^verbatim>\<open>None\<close>.\<close>

definition extract_task_from_email :: "env \<Rightarrow> string \<Rightarrow> string \<Rightarrow> pydict option" where
  "extract_task_from_email w email_subject email_body =
     (case generate_extraction w email_subject email_body of
        Inl e \<Rightarrow> None
      | Inr response_text \<Rightarrow> parse_gemini_response w response_text)"

section \<open>Store operations of the models\<close>

text \<open>
  \<^verbatim>\<open>update_one(filter, {'$set': ...})\<close> changes the first document that matches and no
  other.
\<close>

fun update_first :: "('a \<Rightarrow> bool) \<Rightarrow> ('a \<Rightarrow> 'a) \<Rightarrow> 'a list \<Rightarrow> 'a list" where
  "update_first P f [] = []"
| "update_first P f (x # xs) = (if P x then f x # xs else x # update_first P f xs)"

subsection \<open>app/models/user.py\<close>

definition User_find_by_id :: "database \<Rightarrow> oid \<Rightarrow> user option" where
  "User_find_by_id d user_id = find (\<lambda>u. u_id u = user_id) (users d)"

text \<open>
  \<^verbatim>\<open>User.update(user_id, {'last_email_check': datetime.utcnow()})\<close>, which also sets
  \<^verbatim>\<open>updated_at\<close>. The write is counted when a user document matches.
\<close>

definition update_last_email_check :: "database \<Rightarrow> oid \<Rightarrow> time \<Rightarrow> database" where
  "update_last_email_check d user_id now =
     (case User_find_by_id d user_id of
        None \<Rightarrow> d
      | Some _ \<Rightarrow>
          d\<lparr>users := update_first (\<lambda>u. u_id u = user_id)
                        (\<lambda>u. u\<lparr>u_last_email_check := Some now, u_updated_at := now\<rparr>) (users d),
            writes := writes d @ [EmailCheckpoint user_id now]\<rparr>)"

definition update_last_meeting_check :: "database \<Rightarrow> oid \<Rightarrow> time \<Rightarrow> database" where
  "update_last_meeting_check d user_id now =
     (case User_find_by_id d user_id of
        None \<Rightarrow> d
      | Some _ \<Rightarrow>
          d\<lparr>users := update_first (\<lambda>u. u_id u = user_id)
                        (\<lambda>u. u\<lparr>u_last_meeting_check := Some now, u_updated_at := now\<rparr>) (users d),
            writes := writes d @ [MeetingCheckpoint user_id now]\<rparr>)"

subsection \<open>app/models/task.py\<close>

text \<open>\<^verbatim>\<open>x or y\<close>\<close>

definition py_or :: "pyval \<Rightarrow> pyval \<Rightarrow> pyval" where
  "py_or x y = (if truthy x then x else y)"

text \<open>
  \<^verbatim>\<open>Task.create\<close>, with its arguments in the order of the source's signature. The tasks
  collection has no unique index, so the insert cannot fail.
\<close>

definition Task_create ::
  "database \<Rightarrow> pyval \<Rightarrow> pyval \<Rightarrow> pyval \<Rightarrow> pyval \<Rightarrow> oid option \<Rightarrow> oid option \<Rightarrow> string \<Rightarrow>
   string option \<Rightarrow> string option \<Rightarrow> pyval \<Rightarrow> string \<Rightarrow> oid option \<Rightarrow> string option \<Rightarrow>
   time option \<Rightarrow> string option \<Rightarrow> time \<Rightarrow> task \<times> database" where
  "Task_create d title description priority deadline assigned_to created_by status
     email_id sender_email labels source_type meeting_id meeting_title meeting_date
     user_email now =
     (let new_task =
        \<lparr>t_id = next_id d,
         t_title = title,
         t_description = py_or description (PStr []),
         t_priority = priority,
         t_status = status,
         t_deadline = deadline,
         t_assigned_to = assigned_to,
         t_created_by = created_by,
         t_email_id = email_id,
         t_sender_email = sender_email,
         t_user_email = user_email,
         t_labels = py_or labels (PList []),
         t_source_type = source_type,
         t_meeting_id = meeting_id,
         t_meeting_title = meeting_title,
         t_meeting_date = meeting_date,
         t_created_at = now,
         t_updated_at = now\<rparr>
      in (new_task, d\<lparr>tasks := tasks d @ [new_task], next_id := Suc (next_id d)\<rparr>))"

subsection \<open>app/models/meeting.py\<close>

definition Meeting_find_by_id :: "database \<Rightarrow> oid \<Rightarrow> meeting option" where
  "Meeting_find_by_id d meeting_id = find (\<lambda>m. m_id m = meeting_id) (meetings d)"

definition find_by_calendar_event_id :: "database \<Rightarrow> string \<Rightarrow> oid \<Rightarrow> meeting option" where
  "find_by_calendar_event_id d calendar_event_id user_id =
     find (\<lambda>m. m_calendar_event_id m = calendar_event_id \<and> m_user_id m = user_id) (meetings d)"

text \<open>
  \<^verbatim>\<open>Meeting.create\<close>. \<^verbatim>\<open>create_indexes\<close> declares the unique index
  \<^verbatim>\<open>[('calendar_event_id', 1), ('user_id', 1)]\<close> on \<^verbatim>\<open>meetings\<close>.
\<close>

definition Meeting_create ::
  "database \<Rightarrow> string \<Rightarrow> oid \<Rightarrow> string \<Rightarrow> string \<Rightarrow> time \<Rightarrow> time \<Rightarrow> pyval \<Rightarrow> string \<Rightarrow> time
   \<Rightarrow> (exn + meeting) \<times> database" where
  "Meeting_create d calendar_event_id user_id title description start_time end_time
     attendees meet_link now =
     (let new_meeting =
        \<lparr>m_id = next_id d,
         m_calendar_event_id = calendar_event_id,
         m_user_id = user_id,
         m_title = title,
         m_description = description,
         m_start_time = start_time,
         m_end_time = end_time,
         m_attendees = py_or attendees (PList []),
         m_meet_link = meet_link,
         m_recording_url = [],
         m_recording_id = [],
         m_processing_status = ''pending'',
         m_processed_at = None,
         m_error_message = None,
         m_created_at = now,
         m_updated_at = now\<rparr>
      in if find_by_calendar_event_id d calendar_event_id user_id \<noteq> None
         then (Inl (DuplicateKeyError ''E11000 duplicate key error''), d)
         else (Inr new_meeting,
               d\<lparr>meetings := meetings d @ [new_meeting], next_id := Suc (next_id d)\<rparr>))"

text \<open>
  \<^verbatim>\<open>Meeting.update_status(meeting_id, status, processed_at=None, error_message=None)\<close>.
  \<open>set_status\<close> is the \<^verbatim>\<open>$set\<close> of \<^verbatim>\<open>update_data\<close> on one document: the two optional
  keys are in \<^verbatim>\<open>update_data\<close> only when the argument is true (\<^verbatim>\<open>if processed_at:\<close>,
  \<^verbatim>\<open>if error_message:\<close>). The status write is counted when a meeting matches. The
  source returns \<^verbatim>\<open>Meeting.find_by_id(meeting_id)\<close>, which no caller reads.
\<close>

definition set_status ::
  "string \<Rightarrow> time option \<Rightarrow> string option \<Rightarrow> time \<Rightarrow> meeting \<Rightarrow> meeting" where
  "set_status status processed_at error_message now m =
     (let m1 = m\<lparr>m_processing_status := status, m_updated_at := now\<rparr>;
          m2 = (case processed_at of None \<Rightarrow> m1 | Some t \<Rightarrow> m1\<lparr>m_processed_at := Some t\<rparr>)
      in case error_message of
           None \<Rightarrow> m2
         | Some e \<Rightarrow> if e \<noteq> [] then m2\<lparr>m_error_message := Some e\<rparr> else m2)"

definition update_status ::
  "database \<Rightarrow> oid \<Rightarrow> string \<Rightarrow> time option \<Rightarrow> string option \<Rightarrow> time \<Rightarrow> database" where
  "update_status d meeting_id status processed_at error_message now =
     (case Meeting_find_by_id d meeting_id of
        None \<Rightarrow> d
      | Some _ \<Rightarrow>
          d\<lparr>meetings := update_first (\<lambda>m. m_id m = meeting_id)
                           (set_status status processed_at error_message now) (meetings d),
            writes := writes d @ [MeetingStatus meeting_id status]\<rparr>)"

section \<open>The email poller (app/services/email_polling_service.py)\<close>

text \<open>
  Iterating a Python value (\<^verbatim>\<open>for x in v\<close>): a list gives its elements, a dictionary its
  keys, a string its characters; anything else raises TypeError.
\<close>

definition py_iter :: "pyval \<Rightarrow> exn + pyval list" where
  "py_iter v =
     (case v of
        PList xs \<Rightarrow> Inr xs
      | PDict kvs \<Rightarrow> Inr (map (\<lambda>kv. PStr (fst kv)) kvs)
      | PStr s \<Rightarrow> Inr (map (\<lambda>c. PStr [c]) s)
      | _ \<Rightarrow> Inl (TypeError ''object is not iterable''))"

text \<open>
  The loop \<^verbatim>\<open>for task_info in tasks_to_create\<close> with its \<^verbatim>\<open>try\<close> around each element:
  an element without \<^verbatim>\<open>get\<close> raises inside the \<^verbatim>\<open>try\<close> and is skipped. The result is
  \<^verbatim>\<open>created_count\<close> and the store.
\<close>

fun create_email_tasks ::
  "database \<Rightarrow> pyval list \<Rightarrow> email_data \<Rightarrow> string \<Rightarrow> user \<Rightarrow> pyval \<Rightarrow> time \<Rightarrow> nat
   \<Rightarrow> nat \<times> database" where
  "create_email_tasks d [] email sender_email usr labels now created_count = (created_count, d)"
| "create_email_tasks d (PDict task_info # rest) email sender_email usr labels now created_count =
     (case Task_create d
             (dict_get_default task_info ''title'' (PStr (ed_subject email)))
             (dict_get_default task_info ''description'' (PStr []))
             (dict_get_default task_info ''priority'' (PStr ''medium''))
             (dict_get task_info ''deadline'')
             (Some (u_id usr))
             (Some (u_id usr))
             ''pending''
             (Some (ed_message_id email))
             (Some sender_email)
             labels
             ''email''
             None None None
             (u_email usr)
             now of
        (new_task, d') \<Rightarrow>
          create_email_tasks d' rest email sender_email usr labels now (Suc created_count))"
| "create_email_tasks d (other # rest) email sender_email usr labels now created_count =
     create_email_tasks d rest email sender_email usr labels now created_count"

text \<open>
  \<^verbatim>\<open>_process_email_for_tasks\<close>. Its outer \<^verbatim>\<open>except Exception: return False\<close> is the
  \<open>False\<close> of every branch in which a call raised (\<^verbatim>\<open>GeminiService()\<close>, iterating
  \<^verbatim>\<open>tasks_to_create\<close>, \<^verbatim>\<open>mark_as_processed\<close>); what was written before the exception
  stays written.
\<close>

definition process_email_for_tasks ::
  "env \<Rightarrow> database \<Rightarrow> email_message \<Rightarrow> user \<Rightarrow> time \<Rightarrow> bool \<times> database" where
  "process_email_for_tasks w d email_msg usr now =
     (let email = parse_email email_msg;
          email_id = ed_message_id email;
          user_id = u_id usr;
          sender_email = extract_sender_email (ed_from email)
      in if lower sender_email = lower (case u_email usr of None \<Rightarrow> [] | Some e \<Rightarrow> e)
         then (False, d)
         else if is_processed d email_id user_id then (False, d)
         else
           (case gemini_init w of
              Some e \<Rightarrow> (False, d)
            | None \<Rightarrow>
                (case extract_task_from_email w (ed_subject email) (ed_body email) of
                   None \<Rightarrow> (False, snd (mark_as_processed d email_id user_id 0 now))
                 | Some task_data \<Rightarrow>
                     if task_data = [] \<or>
                        \<not> truthy (dict_get_default task_data ''has_task'' (PBool False))
                     then (False, snd (mark_as_processed d email_id user_id 0 now))
                     else
                       let found = dict_get_default task_data ''tasks'' (PList []);
                           tasks_to_create =
                             (if \<not> truthy found
                              then PList [PDict
                                [(''title'', dict_get_default task_data ''title''
                                               (PStr (ed_subject email))),
                                 (''description'', dict_get_default task_data ''description''
                                               (PStr [])),
                                 (''priority'', dict_get_default task_data ''priority''
                                               (PStr ''medium'')),
                                 (''deadline'', dict_get task_data ''deadline'')]]
                              else found)
                       in (case py_iter tasks_to_create of
                             Inl e \<Rightarrow> (False, d)
                           | Inr task_infos \<Rightarrow>
                               (case create_email_tasks d task_infos email sender_email usr
                                       (dict_get_default task_data ''labels'' (PList [])) now 0 of
                                  (created_count, d') \<Rightarrow>
                                    (case mark_as_processed d' email_id user_id created_count now of
                                       (Inl e, d2) \<Rightarrow> (False, d2)
                                     | (Inr r, d2) \<Rightarrow> (0 < created_count, d2)))))))"

text \<open>
  The loop \<^verbatim>\<open>for email_msg in emails\<close> of \<^verbatim>\<open>_check_user_emails\<close>; the result is the
  store (the count of emails with tasks is only printed).
\<close>

fun process_emails :: "env \<Rightarrow> database \<Rightarrow> email_message list \<Rightarrow> user \<Rightarrow> time \<Rightarrow> database" where
  "process_emails w d [] usr now = d"
| "process_emails w d (email_msg # rest) usr now =
     process_emails w (snd (process_email_for_tasks w d email_msg usr now)) rest usr now"

text \<open>
  \<^verbatim>\<open>_check_user_emails\<close>. \<^verbatim>\<open>GmailService.get_service_for_user\<close> returns \<^verbatim>\<open>None\<close> for a
  user without a refresh token; its constructor and \<^verbatim>\<open>get_emails_since\<close> may raise, which
  the outer \<^verbatim>\<open>except\<close> only prints. The fetch bound is \<^verbatim>\<open>last_email_check\<close>, or five
  minutes before now.
\<close>

definition check_user_emails :: "env \<Rightarrow> database \<Rightarrow> user \<Rightarrow> time \<Rightarrow> database" where
  "check_user_emails w d usr now =
     (if u_gmail_refresh_token usr = None \<or> u_gmail_refresh_token usr = Some [] then d
      else
        (case gmail_build w usr of
           Some e \<Rightarrow> d
         | None \<Rightarrow>
             let last_check = (case u_last_email_check usr of
                                 None \<Rightarrow> now - 300
                               | Some t \<Rightarrow> t)
             in (case gmail_emails_since w usr last_check of
                   Inl e \<Rightarrow> d
                 | Inr emails \<Rightarrow>
                     if emails = [] then d
                     else update_last_email_check
                            (process_emails w d emails usr now) (u_id usr) now)))"

section \<open>Meeting summaries (app/services/gemini_service.py)\<close>

text \<open>
  The deadline step of the action-item loop: the date is parsed and the result dropped,
  so a deadline that parses stays the string it was; there is no \<^verbatim>\<open>else\<close> branch.
\<close>

definition check_item_deadline :: "env \<Rightarrow> pydict \<Rightarrow> exn + pydict" where
  "check_item_deadline w item =
     (if truthy (dict_get item ''deadline'')
      then (case dict_get item ''deadline'' of
              PStr s \<Rightarrow>
                (case strptime w s of
                   Some deadline \<Rightarrow> Inr item
                 | None \<Rightarrow> Inr (AList.update ''deadline'' PNone item))
            | _ \<Rightarrow> Inl (TypeError ''strptime() argument 1 must be str''))
      else Inr item)"

text \<open>The loop \<^verbatim>\<open>for item in summary_data.get('action_items', [])\<close>, over the elements.\<close>

fun process_action_items :: "env \<Rightarrow> pyval list \<Rightarrow> exn + pyval list" where
  "process_action_items w [] = Inr []"
| "process_action_items w (PDict item # rest) =
     (let item1 = (if dict_get item ''priority'' \<notin> set valid_priorities
                   then AList.update ''priority'' (PStr ''medium'') item else item)
      in case check_item_deadline w item1 of
           Inl e \<Rightarrow> Inl e
         | Inr item2 \<Rightarrow>
             (case process_action_items w rest of
                Inl e \<Rightarrow> Inl e
              | Inr items \<Rightarrow> Inr (PDict item2 # items)))"
| "process_action_items w (other # rest) = Inl (AttributeError ''object has no attribute get'')"

definition required_fields :: "string list" where
  "required_fields = [''summary'', ''key_points'', ''action_items'']"

text \<open>
  \<^verbatim>\<open>_parse_meeting_summary_response\<close>. A decoded value that is not a dictionary gives
  \<^verbatim>\<open>None\<close> too: the membership test or the later \<^verbatim>\<open>summary_data.get\<close> raises, or a
  field is reported missing. The items are changed in place, so the returned dictionary
  holds the processed list when \<^verbatim>\<open>action_items\<close> is a list.
\<close>

definition parse_meeting_summary_response :: "env \<Rightarrow> string \<Rightarrow> pydict option" where
  "parse_meeting_summary_response w response_text =
     (case json_loads w (clean_response response_text) of
        None \<Rightarrow> None
      | Some (PDict summary_data) \<Rightarrow>
          if \<exists>field \<in> set required_fields. map_of summary_data field = None then None
          else
            let action_items = dict_get_default summary_data ''action_items'' (PList [])
            in (case py_iter action_items of
                  Inl e \<Rightarrow> None
                | Inr items \<Rightarrow>
                    (case process_action_items w items of
                       Inl e \<Rightarrow> None
                     | Inr items' \<Rightarrow>
                         (case action_items of
                            PList _ \<Rightarrow>
                              Some (AList.update ''action_items'' (PList items') summary_data)
                          | _ \<Rightarrow> Some summary_data)))
      | Some _ \<Rightarrow> None)"

text \<open>
  \<^verbatim>\<open>', '.join([a.get('name', a.get('email', '')) for a in (attendees or [])])\<close>, which
  \<^verbatim>\<open>summarize_meeting_transcript\<close> evaluates before its \<^verbatim>\<open>try\<close>: the comprehension
  needs every attendee to be a dictionary, the join needs every name to be a string.
\<close>

fun attendee_names :: "pyval list \<Rightarrow> exn + pyval list" where
  "attendee_names [] = Inr []"
| "attendee_names (PDict a # rest) =
     (case attendee_names rest of
        Inl e \<Rightarrow> Inl e
      | Inr names \<Rightarrow>
          Inr (dict_get_default a ''name'' (dict_get_default a ''email'' (PStr [])) # names))"
| "attendee_names (other # rest) = Inl (AttributeError ''object has no attribute get'')"

fun join_names :: "pyval list \<Rightarrow> exn + string" where
  "join_names [] = Inr []"
| "join_names [PStr s] = Inr s"
| "join_names (PStr s # rest) =
     (case join_names rest of Inl e \<Rightarrow> Inl e | Inr joined \<Rightarrow> Inr (s @ '', '' @ joined))"
| "join_names (other # rest) = Inl (TypeError ''sequence item: expected str instance'')"

definition attendees_list :: "pyval \<Rightarrow> exn + string" where
  "attendees_list attendees =
     (case py_iter (py_or attendees (PList [])) of
        Inl e \<Rightarrow> Inl e
      | Inr persons \<Rightarrow>
          (case attendee_names persons of
             Inl e \<Rightarrow> Inl e
           | Inr names \<Rightarrow> join_names names))"

text \<open>
  \<^verbatim>\<open>summarize_meeting_transcript\<close>: \<open>Inl\<close> is an exception of the attendee line, which
  leaves the function; an exception of the model call gives \<^verbatim>\<open>None\<close>.
\<close>

definition summarize_meeting_transcript ::
  "env \<Rightarrow> string \<Rightarrow> string \<Rightarrow> pyval \<Rightarrow> exn + pydict option" where
  "summarize_meeting_transcript w transcript_text meeting_title attendees =
     (case attendees_list attendees of
        Inl e \<Rightarrow> Inl e
      | Inr names \<Rightarrow>
          (case generate_summary w transcript_text meeting_title names of
             Inl e \<Rightarrow> Inr None
           | Inr response_text \<Rightarrow> Inr (parse_meeting_summary_response w response_text)))"

section \<open>Transcripts and summaries (app/models/meeting_transcript.py, meeting_summary.py)\<close>

text \<open>
  Both collections have a unique index on \<^verbatim>\<open>meeting_id\<close> (\<^verbatim>\<open>create_indexes\<close>), so a
  second insert for one meeting raises DuplicateKeyError.
\<close>

definition MeetingTranscript_create ::
  "database \<Rightarrow> oid \<Rightarrow> oid \<Rightarrow> string \<Rightarrow> time \<Rightarrow> (exn + unit) \<times> database" where
  "MeetingTranscript_create d meeting_id user_id transcript_text now =
     (if find (\<lambda>t. mt_meeting_id t = meeting_id) (meeting_transcripts d) \<noteq> None
      then (Inl (DuplicateKeyError ''E11000 duplicate key error''), d)
      else (Inr (),
            d\<lparr>meeting_transcripts := meeting_transcripts d @
                 [\<lparr>mt_meeting_id = meeting_id, mt_user_id = user_id,
                   mt_transcript_text = transcript_text, mt_created_at = now\<rparr>]\<rparr>))"

definition MeetingSummary_create ::
  "database \<Rightarrow> oid \<Rightarrow> oid \<Rightarrow> pyval \<Rightarrow> pyval \<Rightarrow> pyval \<Rightarrow> pyval \<Rightarrow> pyval \<Rightarrow> pyval \<Rightarrow> pyval
   \<Rightarrow> time \<Rightarrow> (exn + unit) \<times> database" where
  "MeetingSummary_create d meeting_id user_id summary key_points decisions_made action_items
     participants_mentioned topics_discussed next_meeting now =
     (if find (\<lambda>s. ms_meeting_id s = meeting_id) (meeting_summaries d) \<noteq> None
      then (Inl (DuplicateKeyError ''E11000 duplicate key error''), d)
      else (Inr (),
            d\<lparr>meeting_summaries := meeting_summaries d @
                 [\<lparr>ms_meeting_id = meeting_id, ms_user_id = user_id,
                   ms_summary = summary,
                   ms_key_points = py_or key_points (PList []),
                   ms_decisions_made = py_or decisions_made (PList []),
                   ms_action_items = py_or action_items (PList []),
                   ms_participants_mentioned = py_or participants_mentioned (PList []),
                   ms_topics_discussed = py_or topics_discussed (PList []),
                   ms_next_meeting = next_meeting,
                   ms_created_at = now, ms_updated_at = now\<rparr>]\<rparr>))"

text \<open>
  \<^verbatim>\<open>MeetingSummary.update_task_id\<close>: \<^verbatim>\<open>$set\<close> of \<^verbatim>\<open>action_items.<index>.task_id\<close> and
  \<^verbatim>\<open>updated_at\<close> on the meeting's summary. The pipeline calls it for an index at which
  the stored list holds a dictionary; elsewhere the list is left as it is.
\<close>

definition set_task_id :: "nat \<Rightarrow> oid \<Rightarrow> pyval \<Rightarrow> pyval" where
  "set_task_id idx task_id action_items =
     (case action_items of
        PList xs \<Rightarrow>
          (if idx < length xs
           then (case xs ! idx of
                   PDict item \<Rightarrow> PList (xs[idx := PDict (AList.update ''task_id'' (POid task_id) item)])
                 | _ \<Rightarrow> action_items)
           else action_items)
      | _ \<Rightarrow> action_items)"

definition update_task_id :: "database \<Rightarrow> oid \<Rightarrow> nat \<Rightarrow> oid \<Rightarrow> time \<Rightarrow> database" where
  "update_task_id d meeting_id action_item_index task_id now =
     d\<lparr>meeting_summaries :=
         update_first (\<lambda>s. ms_meeting_id s = meeting_id)
           (\<lambda>s. s\<lparr>ms_action_items := set_task_id action_item_index task_id (ms_action_items s),
                   ms_updated_at := now\<rparr>)
           (meeting_summaries d)\<rparr>"

section \<open>The meeting poller (app/services/meeting_polling_service.py)\<close>

text \<open>
  The loop \<^verbatim>\<open>for meeting_data in meetings\<close> of \<^verbatim>\<open>_check_user_meetings\<close>: a known event is
  skipped, a new one stored as a pending meeting; an exception of \<^verbatim>\<open>Meeting.create\<close> is
  caught for the one element.
\<close>

fun add_new_meetings :: "database \<Rightarrow> meeting_event list \<Rightarrow> user \<Rightarrow> time \<Rightarrow> database" where
  "add_new_meetings d [] usr now = d"
| "add_new_meetings d (meeting_data # rest) usr now =
     (if find_by_calendar_event_id d (me_calendar_event_id meeting_data) (u_id usr) \<noteq> None
      then add_new_meetings d rest usr now
      else add_new_meetings
             (snd (Meeting_create d (me_calendar_event_id meeting_data) (u_id usr)
                     (me_title meeting_data) (me_description meeting_data)
                     (me_start_time meeting_data) (me_end_time meeting_data)
                     (me_attendees meeting_data) (me_meet_link meeting_data) now))
             rest usr now)"

text \<open>
  \<^verbatim>\<open>_check_user_meetings\<close>. \<^verbatim>\<open>CalendarService.get_service_for_user\<close> returns \<^verbatim>\<open>None\<close>
  without tokens or when the constructor fails; an exception of the fetch reaches the
  outer \<^verbatim>\<open>except\<close>, which only logs.
\<close>

definition check_user_meetings :: "env \<Rightarrow> database \<Rightarrow> user \<Rightarrow> time \<Rightarrow> database" where
  "check_user_meetings w d usr now =
     (if u_calendar_tokens usr = None \<or> u_calendar_tokens usr = Some []
         \<or> \<not> calendar_build_ok w usr then d
      else
        (case calendar_past_meet_events w usr of
           Inl e \<Rightarrow> d
         | Inr events \<Rightarrow>
             if events = [] then update_last_meeting_check d (u_id usr) now
             else update_last_meeting_check
                    (add_new_meetings d events usr now) (u_id usr) now))"

text \<open>\<^verbatim>\<open>x[:100]\<close>: a string or a list is cut; any other value raises.\<close>

definition py_slice100 :: "pyval \<Rightarrow> pyval option" where
  "py_slice100 v =
     (case v of
        PStr s \<Rightarrow> Some (PStr (take 100 s))
      | PList xs \<Rightarrow> Some (PList (take 100 xs))
      | _ \<Rightarrow> None)"

text \<open>
  The loop \<^verbatim>\<open>for idx, action_item in enumerate(...)\<close> of \<^verbatim>\<open>process_meeting\<close>, with its
  \<^verbatim>\<open>try\<close> around each element: a missing \<^verbatim>\<open>description\<close> (KeyError) or one that cannot
  be sliced (TypeError) skips the element. The result is \<^verbatim>\<open>tasks_created\<close> and the store.
\<close>

fun create_meeting_tasks ::
  "database \<Rightarrow> pyval list \<Rightarrow> nat \<Rightarrow> meeting \<Rightarrow> user \<Rightarrow> time \<Rightarrow> nat \<Rightarrow> nat \<times> database" where
  "create_meeting_tasks d [] idx mtg usr now tasks_created = (tasks_created, d)"
| "create_meeting_tasks d (PDict action_item # rest) idx mtg usr now tasks_created =
     (case map_of action_item ''description'' of
        None \<Rightarrow> create_meeting_tasks d rest (Suc idx) mtg usr now tasks_created
      | Some description \<Rightarrow>
          (case py_slice100 description of
             None \<Rightarrow> create_meeting_tasks d rest (Suc idx) mtg usr now tasks_created
           | Some title \<Rightarrow>
               (case Task_create d
                       title
                       (dict_get_default action_item ''context'' description)
                       (dict_get_default action_item ''priority'' (PStr ''medium''))
                       (dict_get action_item ''deadline'')
                       (Some (m_user_id mtg))
                       (Some (m_user_id mtg))
                       ''pending''
                       None None
                       PNone
                       ''meeting''
                       (Some (m_id mtg))
                       (Some (m_title mtg))
                       (Some (m_start_time mtg))
                       (u_email usr)
                       now of
                  (new_task, d') \<Rightarrow>
                    create_meeting_tasks (update_task_id d' (m_id mtg) idx (t_id new_task) now)
                      rest (Suc idx) mtg usr now (Suc tasks_created))))"
| "create_meeting_tasks d (other # rest) idx mtg usr now tasks_created =
     create_meeting_tasks d rest (Suc idx) mtg usr now tasks_created"

text \<open>
  The body of the \<^verbatim>\<open>try\<close> of \<^verbatim>\<open>process_meeting\<close>: \<open>Inr b\<close> is \<^verbatim>\<open>return b\<close>, \<open>Inl e\<close> an
  exception on its way to the \<^verbatim>\<open>except\<close> clause, each with the store at that moment.
  \<^verbatim>\<open>DriveService.get_service_for_user\<close> returns \<^verbatim>\<open>None\<close> without tokens or when its
  constructor fails.
\<close>

definition process_meeting_body ::
  "env \<Rightarrow> database \<Rightarrow> meeting \<Rightarrow> time \<Rightarrow> (exn + bool) \<times> database" where
  "process_meeting_body w d mtg now =
     (let meeting_id = m_id mtg; user_id = m_user_id mtg in
      case gemini_init w of
        Some e \<Rightarrow> (Inl e, d)
      | None \<Rightarrow>
          let d1 = update_status d meeting_id ''processing'' None None now in
          (case User_find_by_id d1 user_id of
             None \<Rightarrow> (Inl (Exception ''User not found''), d1)
           | Some usr \<Rightarrow>
               if u_calendar_tokens usr = None \<or> u_calendar_tokens usr = Some []
                  \<or> \<not> drive_build_ok w usr
               then (Inr False,
                     update_status d1 meeting_id ''failed'' None
                       (Some ''Drive service not available'') now)
               else
                 (case drive_find_recording w usr (m_title mtg) (m_start_time mtg) of
                    None \<Rightarrow>
                      (Inr False,
                       update_status d1 meeting_id ''failed'' None
                         (Some ''No transcript or Gemini notes found in Google Drive'') now)
                  | Some transcript_file \<Rightarrow>
                      (case drive_document_text w usr (df_id transcript_file) of
                         None \<Rightarrow>
                           (Inr False,
                            update_status d1 meeting_id ''failed'' None
                              (Some ''Failed to read transcript/notes content'') now)
                       | Some transcript_text \<Rightarrow>
                           if transcript_text = []
                           then (Inr False,
                                 update_status d1 meeting_id ''failed'' None
                                   (Some ''Failed to read transcript/notes content'') now)
                           else
                             (case MeetingTranscript_create d1 meeting_id user_id
                                     transcript_text now of
                                (Inl e, d2) \<Rightarrow> (Inl e, d2)
                              | (Inr _, d2) \<Rightarrow>
                                  (case summarize_meeting_transcript w transcript_text
                                          (m_title mtg) (m_attendees mtg) of
                                     Inl e \<Rightarrow> (Inl e, d2)
                                   | Inr None \<Rightarrow>
                                       (Inl (Exception ''Failed to generate summary''), d2)
                                   | Inr (Some summary_data) \<Rightarrow>
                                       if summary_data = []
                                       then (Inl (Exception ''Failed to generate summary''), d2)
                                       else
                                         (case map_of summary_data ''summary'' of
                                            None \<Rightarrow> (Inl (KeyError ''summary''), d2)
                                          | Some summary \<Rightarrow>
                                              (case MeetingSummary_create d2 meeting_id user_id
                                                      summary
                                                      (dict_get_default summary_data ''key_points'' (PList []))
                                                      (dict_get_default summary_data ''decisions_made'' (PList []))
                                                      (dict_get_default summary_data ''action_items'' (PList []))
                                                      (dict_get_default summary_data ''participants_mentioned'' (PList []))
                                                      (dict_get_default summary_data ''topics_discussed'' (PList []))
                                                      (dict_get summary_data ''next_meeting'')
                                                      now of
                                                 (Inl e, d3) \<Rightarrow> (Inl e, d3)
                                               | (Inr _, d3) \<Rightarrow>
                                                   (case py_iter (dict_get_default summary_data
                                                                    ''action_items'' (PList [])) of
                                                      Inl e \<Rightarrow> (Inl e, d3)
                                                    | Inr items \<Rightarrow>
                                                        (Inr True,
                                                         update_status
                                                           (snd (create_meeting_tasks d3 items 0
                                                                   mtg usr now 0))
                                                           meeting_id ''completed'' (Some now)
                                                           None now))))))))))"

text \<open>
  \<^verbatim>\<open>process_meeting\<close>: the \<^verbatim>\<open>except\<close> clause writes the status \<^verbatim>\<open>failed\<close> with
  \<^verbatim>\<open>str(e)\<close> and returns \<^verbatim>\<open>False\<close>.
\<close>

definition process_meeting :: "env \<Rightarrow> database \<Rightarrow> meeting \<Rightarrow> time \<Rightarrow> bool \<times> database" where
  "process_meeting w d mtg now =
     (case process_meeting_body w d mtg now of
        (Inr b, d') \<Rightarrow> (b, d')
      | (Inl e, d') \<Rightarrow>
          (False, update_status d' (m_id mtg) ''failed'' None (Some (str_of_exn e)) now))"

section \<open>The manual trigger (app/routes/meetings.py)\<close>

text \<open>
  A response is the body's \<^verbatim>\<open>success\<close> flag, its \<^verbatim>\<open>error\<close> or \<^verbatim>\<open>message\<close> text, and the
  HTTP status code.
\<close>

record response =
  success :: bool
  text_of :: string
  code :: nat

text \<open>
  \<^verbatim>\<open>MeetingProcess.post\<close> for the meeting id of the URL and the user id of the token. The
  second component is the meeting document handed to the background thread that runs
  \<^verbatim>\<open>process_meeting\<close>, if one is started; the third is the store when the handler returns.
\<close>

definition MeetingProcess_post ::
  "database \<Rightarrow> oid \<Rightarrow> oid \<Rightarrow> time \<Rightarrow> response \<times> meeting option \<times> database" where
  "MeetingProcess_post d meeting_id user_id now =
     (case Meeting_find_by_id d meeting_id of
        None \<Rightarrow>
          (\<lparr>success = False, text_of = ''Meeting not found'', code = 404\<rparr>, None, d)
      | Some mtg \<Rightarrow>
          if m_user_id mtg \<noteq> user_id
          then (\<lparr>success = False, text_of = ''Access denied'', code = 403\<rparr>, None, d)
          else if m_processing_status mtg = ''processing''
          then (\<lparr>success = False, text_of = ''Meeting is already being processed'',
                 code = 400\<rparr>, None, d)
          else (\<lparr>success = True,
                 text_of = ''Meeting processing started. This may take a few minutes.'',
                 code = 202\<rparr>,
                Some mtg,
                update_status d meeting_id ''processing'' None None now))"

section \<open>What the claims say about a candidate\<close>

text \<open>
  The priority a candidate should leave the normalizer with: its own when that is one of
  the three valid values, \<open>medium\<close> otherwise (also when the key is absent, where
  \<^verbatim>\<open>get\<close> gives \<^verbatim>\<open>None\<close>).
\<close>

definition normal_priority :: "pyval \<Rightarrow> pyval" where
  "normal_priority p = (if p \<in> set valid_priorities then p else PStr ''medium'')"

text \<open>
  \<open>priority_normalized c out\<close>: the candidate \<open>c\<close> and its output \<open>out\<close> are dictionaries,
  and the priority of \<open>out\<close> is the normal priority of \<open>c\<close>.
\<close>

definition priority_normalized :: "pyval \<Rightarrow> pyval \<Rightarrow> bool" where
  "priority_normalized c out =
     (case (c, out) of
        (PDict candidate, PDict result) \<Rightarrow>
          dict_get result ''priority'' = normal_priority (dict_get candidate ''priority'')
      | _ \<Rightarrow> False)"

text \<open>The email candidates that are kept: those with a true title and description.\<close>

definition has_required_fields :: "pyval \<Rightarrow> bool" where
  "has_required_fields c =
     (case c of
        PDict candidate \<Rightarrow>
          truthy (dict_get candidate ''title'') \<and> truthy (dict_get candidate ''description'')
      | _ \<Rightarrow> False)"

text \<open>
  The action items for which the task loop of \<open>process_meeting\<close> creates a task: the
  dictionaries with a \<open>description\<close> that can be sliced. \<open>item_deadline\<close> is the deadline
  such an item carries.
\<close>

definition task_made_from :: "pyval \<Rightarrow> bool" where
  "task_made_from item =
     (case item of
        PDict action_item \<Rightarrow>
          (case map_of action_item ''description'' of
             None \<Rightarrow> False
           | Some description \<Rightarrow> py_slice100 description \<noteq> None)
      | _ \<Rightarrow> False)"

definition item_deadline :: "pyval \<Rightarrow> pyval" where
  "item_deadline item = (case item of PDict action_item \<Rightarrow> dict_get action_item ''deadline'' | _ \<Rightarrow> PNone)"

text \<open>
  \<open>reaches_lookup w d m usr\<close>: the processing routine for meeting \<open>m\<close> gets as far as the
  document search, as user \<open>usr\<close>: the Gemini service is built, the meeting's user is
  stored, and the Drive service is available. \<open>no_readable_document\<close>: the search then
  finds no document, or one whose text cannot be read or is empty.
\<close>

definition reaches_lookup :: "env \<Rightarrow> database \<Rightarrow> meeting \<Rightarrow> user \<Rightarrow> bool" where
  "reaches_lookup w d m usr =
     (gemini_init w = None \<and> User_find_by_id d (m_user_id m) = Some usr
      \<and> u_calendar_tokens usr \<noteq> None \<and> u_calendar_tokens usr \<noteq> Some []
      \<and> drive_build_ok w usr)"

definition no_readable_document :: "env \<Rightarrow> meeting \<Rightarrow> user \<Rightarrow> bool" where
  "no_readable_document w m usr =
     (case drive_find_recording w usr (m_title m) (m_start_time m) of
        None \<Rightarrow> True
      | Some transcript_file \<Rightarrow>
          (case drive_document_text w usr (df_id transcript_file) of
             None \<Rightarrow> True
           | Some transcript_text \<Rightarrow> transcript_text = []))"

text \<open>The error message the routine records for the two failures of the lookup.\<close>

definition lookup_error :: "env \<Rightarrow> meeting \<Rightarrow> user \<Rightarrow> string" where
  "lookup_error w m usr =
     (case drive_find_recording w usr (m_title m) (m_start_time m) of
        None \<Rightarrow> ''No transcript or Gemini notes found in Google Drive''
      | Some transcript_file \<Rightarrow> ''Failed to read transcript/notes content'')"

section \<open>Sample data\<close>

text \<open>A store with no documents, and the store after one ledger record.\<close>

definition empty_store :: database where
  "empty_store =
     \<lparr>users = [], tasks = [], processed_emails = [], meetings = [],
      meeting_transcripts = [], meeting_summaries = [], next_id = 0, writes = []\<rparr>"

text \<open>
  A user with mail and calendar access, a meeting of that user that failed once, and a
  store that holds both.
\<close>

definition sample_user :: user where
  "sample_user =
     \<lparr>u_id = 7, u_email = Some ''ann@example.com'', u_gmail_refresh_token = Some ''tok'',
      u_calendar_tokens = Some ''cal'', u_last_email_check = Some 50,
      u_last_meeting_check = None, u_updated_at = 50\<rparr>"

definition sample_meeting :: meeting where
  "sample_meeting =
     \<lparr>m_id = 1, m_calendar_event_id = ''evt-1'', m_user_id = 7, m_title = ''Weekly sync'',
      m_description = [], m_start_time = 10, m_end_time = 20, m_attendees = PList [],
      m_meet_link = ''https://meet.google.com/abc'', m_recording_url = [],
      m_recording_id = [], m_processing_status = ''failed'', m_processed_at = None,
      m_error_message = Some ''No transcript or Gemini notes found in Google Drive'',
      m_created_at = 30, m_updated_at = 40\<rparr>"

definition sample_store :: database where
  "sample_store =
     \<lparr>users = [sample_user], tasks = [], processed_emails = [], meetings = [sample_meeting],
      meeting_transcripts = [], meeting_summaries = [], next_id = 2, writes = []\<rparr>"

text \<open>
  Two answers of the language model, with the values \<^verbatim>\<open>json.loads\<close> decodes them to: an
  extraction answer with three tasks, and a meeting summary with three action items.
\<close>

definition extraction_text :: string where
  \<open>extraction_text = ''{"has_tasks": true, "tasks": [{"title": "Send report", "description": "Send it", "priority": "urgent", "deadline": "next Friday"}, {"title": "Fix bug", "description": "Fix it", "priority": "high", "deadline": "2025-11-22"}, {"title": "No description"}]}''\<close>

definition extraction_value :: pyval where
  "extraction_value =
     PDict [(''has_tasks'', PBool True),
            (''tasks'', PList
              [PDict [(''title'', PStr ''Send report''), (''description'', PStr ''Send it''),
                      (''priority'', PStr ''urgent''), (''deadline'', PStr ''next Friday'')],
               PDict [(''title'', PStr ''Fix bug''), (''description'', PStr ''Fix it''),
                      (''priority'', PStr ''high''), (''deadline'', PStr ''2025-11-22'')],
               PDict [(''title'', PStr ''No description'')]])]"

definition summary_text :: string where
  \<open>summary_text = ''{"summary": "Sync", "key_points": [], "action_items": [{"description": "Update docs", "priority": "urgent", "deadline": ""}, {"description": "Book a room", "deadline": "Friday"}, {"description": "Ship", "priority": "low", "deadline": "2025-11-22"}]}''\<close>

definition summary_value :: pyval where
  "summary_value =
     PDict [(''summary'', PStr ''Sync''),
            (''key_points'', PList []),
            (''action_items'', PList
              [PDict [(''description'', PStr ''Update docs''), (''priority'', PStr ''urgent''),
                      (''deadline'', PStr [])],
               PDict [(''description'', PStr ''Book a room''), (''deadline'', PStr ''Friday'')],
               PDict [(''description'', PStr ''Ship''), (''priority'', PStr ''low''),
                      (''deadline'', PStr ''2025-11-22'')]])]"

text \<open>
  An environment for the examples. Its decoder is \<^verbatim>\<open>json.loads\<close> on the two texts above
  and fails on the other text the examples use, which is not JSON; its date parser knows
  the one well-formed date of the examples (midnight of 2025-11-22 in seconds) and fails
  on their other deadline strings. The model answers an extraction prompt with the
  email's body and a summary prompt with the transcript. Gmail and Calendar return
  nothing and Drive finds no document.
\<close>

definition sample_env :: env where
  "sample_env =
     \<lparr>json_loads = (\<lambda>s. if s = extraction_text then Some extraction_value
                          else if s = summary_text then Some summary_value
                          else None),
      strptime = (\<lambda>s. if s = ''2025-11-22'' then Some 1763769600 else None),
      gemini_init = None,
      generate_extraction = (\<lambda>email_subject email_body. Inr email_body),
      generate_summary = (\<lambda>transcript_text meeting_title names. Inr transcript_text),
      gmail_build = (\<lambda>u. None),
      gmail_emails_since = (\<lambda>u t. Inr []),
      calendar_build_ok = (\<lambda>u. True),
      calendar_past_meet_events = (\<lambda>u. Inr []),
      drive_build_ok = (\<lambda>u. True),
      drive_find_recording = (\<lambda>u title t. None),
      drive_document_text = (\<lambda>u file_id. None)\<rparr>"

text \<open>
  Three messages: one the user sent to herself, one from a colleague whose body is the
  extraction answer above, and one from a colleague whose body is not JSON.
\<close>

definition own_message :: email_message where
  "own_message =
     \<lparr>em_id = ''msg-own'',
      em_headers = [(''Subject'', ''Reminder''), (''From'', ''Ann <ANN@Example.com>'')],
      em_body = extraction_text\<rparr>"

definition task_message :: email_message where
  "task_message =
     \<lparr>em_id = ''msg-task'',
      em_headers = [(''Subject'', ''Report''), (''From'', ''Bob <bob@example.com>'')],
      em_body = extraction_text\<rparr>"

definition plain_message :: email_message where
  "plain_message =
     \<lparr>em_id = ''msg-plain'',
      em_headers = [(''Subject'', ''Hello''), (''From'', ''Bob <bob@example.com>'')],
      em_body = ''I found no tasks in this email.''\<rparr>"

text \<open>
  What the normalizer returns for the two answers: the first task's priority \<open>urgent\<close>
  and its deadline \<open>next Friday\<close> are replaced, the third task (no description) is
  dropped; in the summary the first item keeps its empty deadline string.
\<close>

definition extraction_validated :: "pyval list" where
  "extraction_validated =
     [PDict [(''title'', PStr ''Send report''), (''description'', PStr ''Send it''),
             (''priority'', PStr ''medium''), (''deadline'', PNone)],
      PDict [(''title'', PStr ''Fix bug''), (''description'', PStr ''Fix it''),
             (''priority'', PStr ''high''), (''deadline'', PDate 1763769600)]]"

definition extraction_parsed :: pydict where
  "extraction_parsed =
     [(''has_task'', PBool True),
      (''has_tasks'', PBool True),
      (''tasks'', PList extraction_validated),
      (''title'', PStr ''Send report''),
      (''description'', PStr ''Send it''),
      (''priority'', PStr ''medium''),
      (''deadline'', PNone)]"

definition summary_items :: "pyval list" where
  "summary_items =
     [PDict [(''description'', PStr ''Update docs''), (''priority'', PStr ''medium''),
             (''deadline'', PStr [])],
      PDict [(''description'', PStr ''Book a room''), (''deadline'', PNone),
             (''priority'', PStr ''medium'')],
      PDict [(''description'', PStr ''Ship''), (''priority'', PStr ''low''),
             (''deadline'', PStr ''2025-11-22'')]]"

definition summary_parsed :: pydict where
  "summary_parsed =
     [(''summary'', PStr ''Sync''),
      (''key_points'', PList []),
      (''action_items'', PList summary_items)]"

text \<open>
  The same user's meeting before any processing, a store that holds it, and an
  environment in which Drive finds a notes document whose text the model summarizes
  with the summary answer above.
\<close>

definition pending_meeting :: meeting where
  "pending_meeting =
     sample_meeting\<lparr>m_processing_status := ''pending'', m_error_message := None\<rparr>"

definition pending_store :: database where
  "pending_store = sample_store\<lparr>meetings := [pending_meeting]\<rparr>"

definition notes_env :: env where
  "notes_env =
     sample_env\<lparr>drive_find_recording :=
                  (\<lambda>u title t. Some \<lparr>df_id = ''doc-1'', df_name = ''Weekly sync - Notes by Gemini''\<rparr>),
                drive_document_text := (\<lambda>u file_id. Some summary_text)\<rparr>"

text \<open>An environment in which the Gemini service cannot be built (no API key).\<close>

definition no_key_env :: env where
  "no_key_env =
     sample_env\<lparr>gemini_init :=
       Some (ValueError ''GEMINI_API_KEY not found in environment variables'')\<rparr>"

section \<open>Properties\<close>

lemma find_append:
  "find P (xs @ ys) = (case find P xs of None \<Rightarrow> find P ys | Some x \<Rightarrow> Some x)"
  by (induction xs) auto

lemma mark_as_processed_existing:
  assumes "is_processed d i u"
  shows "mark_as_processed d i u n now = (Inl (DuplicateKeyError ''E11000 duplicate key error''), d)"
  using assms by (simp add: mark_as_processed_def insert_processed_email_def is_processed_def)

lemma mark_as_processed_fresh:
  assumes "\<not> is_processed d i u"
  shows "mark_as_processed d i u n now =
           (Inr \<lparr>pe_email_id = i, pe_user_id = u, pe_tasks_created = n, pe_processed_at = now\<rparr>,
            d\<lparr>processed_emails := processed_emails d @
                 [\<lparr>pe_email_id = i, pe_user_id = u, pe_tasks_created = n, pe_processed_at = now\<rparr>]\<rparr>)"
  using assms
  by (simp add: mark_as_processed_def insert_processed_email_def is_processed_def Let_def)


lemma filter_key_absent:
  "find P xs = None \<Longrightarrow> filter P xs = []"
  by (induction xs) (auto split: if_splits)

text \<open>
  C1. When a first call \<open>mark_as_processed(i, u, n)\<close> has stored its record, a second call
  for the same item and user, with any count \<open>m\<close>, raises DuplicateKeyError and leaves
  the store as it was: the ledger holds exactly one record for (i, u), the one the first
  call returned, and its \<open>tasks_created\<close> is \<open>n\<close>.
\<close>

theorem ledger_second_mark_fails:
  assumes first: "mark_as_processed d i u n t1 = (Inr r, d1)"
  shows "mark_as_processed d1 i u m t2 =
           (Inl (DuplicateKeyError ''E11000 duplicate key error''), d1)
       \<and> find_processed d1 i u = Some r
       \<and> pe_tasks_created r = n
       \<and> filter (\<lambda>x. pe_email_id x = i \<and> pe_user_id x = u) (processed_emails d1) = [r]"
proof -
  have fresh: "\<not> is_processed d i u"
  proof
    assume "is_processed d i u"
    from mark_as_processed_existing [OF this] first show False by simp
  qed
  let ?r = "\<lparr>pe_email_id = i, pe_user_id = u, pe_tasks_created = n, pe_processed_at = t1\<rparr>"
  from mark_as_processed_fresh [OF fresh] first
  have r: "r = ?r" and d1: "d1 = d\<lparr>processed_emails := processed_emails d @ [?r]\<rparr>"
    by auto
  from fresh have none: "find (\<lambda>x. pe_email_id x = i \<and> pe_user_id x = u) (processed_emails d) = None"
    by (simp add: is_processed_def find_processed_def)
  have stored: "find_processed d1 i u = Some r"
    by (simp add: find_processed_def d1 r find_append none)
  then have "is_processed d1 i u"
    by (simp add: is_processed_def)
  then have second: "mark_as_processed d1 i u m t2 =
           (Inl (DuplicateKeyError ''E11000 duplicate key error''), d1)"
    by (rule mark_as_processed_existing)
  have one: "filter (\<lambda>x. pe_email_id x = i \<and> pe_user_id x = u) (processed_emails d1) = [r]"
    by (simp add: d1 r filter_key_absent [OF none])
  from second stored one r show ?thesis by simp
qed

theorem ledger_second_mark_fails_witness:
  "mark_as_processed empty_store ''msg-1'' 7 2 100 =
     (Inr \<lparr>pe_email_id = ''msg-1'', pe_user_id = 7, pe_tasks_created = 2, pe_processed_at = 100\<rparr>,
      empty_store\<lparr>processed_emails :=
        [\<lparr>pe_email_id = ''msg-1'', pe_user_id = 7, pe_tasks_created = 2, pe_processed_at = 100\<rparr>]\<rparr>)
   \<and> mark_as_processed
        (empty_store\<lparr>processed_emails :=
          [\<lparr>pe_email_id = ''msg-1'', pe_user_id = 7, pe_tasks_created = 2, pe_processed_at = 100\<rparr>]\<rparr>)
        ''msg-1'' 7 5 200 =
     (Inl (DuplicateKeyError ''E11000 duplicate key error''),
      empty_store\<lparr>processed_emails :=
        [\<lparr>pe_email_id = ''msg-1'', pe_user_id = 7, pe_tasks_created = 2, pe_processed_at = 100\<rparr>]\<rparr>)
   \<and> map pe_tasks_created
        (filter (\<lambda>x. pe_email_id x = ''msg-1'' \<and> pe_user_id x = 7)
          (processed_emails
            (empty_store\<lparr>processed_emails :=
              [\<lparr>pe_email_id = ''msg-1'', pe_user_id = 7, pe_tasks_created = 2,
                pe_processed_at = 100\<rparr>]\<rparr>))) = [2]"
proof -
  have first: "mark_as_processed empty_store ''msg-1'' 7 2 100 =
     (Inr \<lparr>pe_email_id = ''msg-1'', pe_user_id = 7, pe_tasks_created = 2, pe_processed_at = 100\<rparr>,
      empty_store\<lparr>processed_emails :=
        [\<lparr>pe_email_id = ''msg-1'', pe_user_id = 7, pe_tasks_created = 2, pe_processed_at = 100\<rparr>]\<rparr>)"
    by (simp add: mark_as_processed_def insert_processed_email_def find_processed_def
        empty_store_def Let_def)
  from ledger_second_mark_fails [OF first, of 5 200] first show ?thesis
    by simp
qed



subsection \<open>Updating one document\<close>

lemma find_update_first:
  assumes "\<And>x. P x \<Longrightarrow> P (f x)"
  shows "find P (update_first P f xs) = map_option f (find P xs)"
  using assms by (induction xs) auto

lemma filter_update_first_others:
  assumes "\<And>x. P x \<Longrightarrow> P (f x)"
  shows "filter (\<lambda>x. \<not> P x) (update_first P f xs) = filter (\<lambda>x. \<not> P x) xs"
  using assms by (induction xs) auto

lemma length_update_first [simp]:
  "length (update_first P f xs) = length xs"
  by (induction xs) auto

lemma set_status_only_status:
  "set_status s None None now m = m\<lparr>m_processing_status := s, m_updated_at := now\<rparr>"
  by (simp add: set_status_def)

lemma m_id_set_status [simp]:
  "m_id (set_status s p e now m) = m_id m"
  by (simp add: set_status_def Let_def split: option.splits)

text \<open>
  C10. A call \<open>update_status(meeting_id, status)\<close> with no other argument, on a stored
  meeting \<open>m\<close>, leaves a document that differs from \<open>m\<close> in \<open>processing_status\<close> and
  \<open>updated_at\<close> only: \<open>processed_at\<close> and \<open>error_message\<close> keep their values. The
  documents with another id and every other collection are as before.
\<close>

theorem update_status_only_status_frame:
  assumes "Meeting_find_by_id d mid = Some m"
  shows "Meeting_find_by_id (update_status d mid s None None now) mid =
           Some (m\<lparr>m_processing_status := s, m_updated_at := now\<rparr>)
       \<and> m_error_message (the (Meeting_find_by_id (update_status d mid s None None now) mid)) =
           m_error_message m
       \<and> m_processed_at (the (Meeting_find_by_id (update_status d mid s None None now) mid)) =
           m_processed_at m
       \<and> filter (\<lambda>x. m_id x \<noteq> mid) (meetings (update_status d mid s None None now)) =
           filter (\<lambda>x. m_id x \<noteq> mid) (meetings d)
       \<and> length (meetings (update_status d mid s None None now)) = length (meetings d)
       \<and> users (update_status d mid s None None now) = users d
       \<and> tasks (update_status d mid s None None now) = tasks d
       \<and> processed_emails (update_status d mid s None None now) = processed_emails d
       \<and> meeting_transcripts (update_status d mid s None None now) = meeting_transcripts d
       \<and> meeting_summaries (update_status d mid s None None now) = meeting_summaries d"
proof -
  let ?d = "update_status d mid s None None now"
  have ms: "meetings ?d =
      update_first (\<lambda>x. m_id x = mid) (set_status s None None now) (meetings d)"
    using assms by (simp add: update_status_def)
  have found: "Meeting_find_by_id ?d mid =
      Some (m\<lparr>m_processing_status := s, m_updated_at := now\<rparr>)"
    using assms
    by (simp add: Meeting_find_by_id_def ms find_update_first set_status_only_status)
  have others: "filter (\<lambda>x. m_id x \<noteq> mid) (meetings ?d) =
      filter (\<lambda>x. m_id x \<noteq> mid) (meetings d)"
    by (simp add: ms filter_update_first_others)
  have rest: "users ?d = users d \<and> tasks ?d = tasks d
      \<and> processed_emails ?d = processed_emails d
      \<and> meeting_transcripts ?d = meeting_transcripts d
      \<and> meeting_summaries ?d = meeting_summaries d"
    using assms by (simp add: update_status_def)
  from found others rest ms show ?thesis by simp
qed

theorem update_status_only_status_frame_witness:
  "Meeting_find_by_id sample_store 1 = Some sample_meeting
   \<and> Meeting_find_by_id (update_status sample_store 1 ''processing'' None None 60) 1 =
       Some (sample_meeting\<lparr>m_processing_status := ''processing'', m_updated_at := 60\<rparr>)
   \<and> m_error_message
       (the (Meeting_find_by_id (update_status sample_store 1 ''processing'' None None 60) 1)) =
       Some ''No transcript or Gemini notes found in Google Drive''"
proof -
  have h: "Meeting_find_by_id sample_store 1 = Some sample_meeting"
    by (simp add: Meeting_find_by_id_def sample_store_def sample_meeting_def)
  have e: "m_error_message sample_meeting =
      Some ''No transcript or Gemini notes found in Google Drive''"
    by (simp add: sample_meeting_def)
  from update_status_only_status_frame [OF h, of "''processing''" 60] h e
  show ?thesis by simp
qed



subsection \<open>The manual trigger\<close>

text \<open>
  C8. A manual trigger by the owner of a stored meeting whose status is \<open>processing\<close>
  is answered 400 with \<open>success: false\<close>; no processing run is started and the store is
  left as it is.
\<close>

theorem manual_trigger_while_processing:
  assumes "Meeting_find_by_id d mid = Some m"
    and "m_user_id m = uid"
    and "m_processing_status m = ''processing''"
  shows "MeetingProcess_post d mid uid now =
           (\<lparr>success = False, text_of = ''Meeting is already being processed'', code = 400\<rparr>,
            None, d)"
  using assms by (simp add: MeetingProcess_post_def)

theorem manual_trigger_while_processing_witness:
  "Meeting_find_by_id (update_status sample_store 1 ''processing'' None None 60) 1 =
     Some (sample_meeting\<lparr>m_processing_status := ''processing'', m_updated_at := 60\<rparr>)
   \<and> m_user_id (sample_meeting\<lparr>m_processing_status := ''processing'', m_updated_at := 60\<rparr>) = 7
   \<and> m_processing_status
       (sample_meeting\<lparr>m_processing_status := ''processing'', m_updated_at := 60\<rparr>) =
       ''processing''
   \<and> MeetingProcess_post (update_status sample_store 1 ''processing'' None None 60) 1 7 70 =
     (\<lparr>success = False, text_of = ''Meeting is already being processed'', code = 400\<rparr>,
      None, update_status sample_store 1 ''processing'' None None 60)"
proof -
  have h: "Meeting_find_by_id (update_status sample_store 1 ''processing'' None None 60) 1 =
     Some (sample_meeting\<lparr>m_processing_status := ''processing'', m_updated_at := 60\<rparr>)"
    by (simp add: Meeting_find_by_id_def update_status_def set_status_def sample_store_def
        sample_meeting_def)
  have s: "m_processing_status
      (sample_meeting\<lparr>m_processing_status := ''processing'', m_updated_at := 60\<rparr>) =
      ''processing''"
    by simp
  have o: "m_user_id (sample_meeting\<lparr>m_processing_status := ''processing'', m_updated_at := 60\<rparr>) = 7"
    by (simp add: sample_meeting_def)
  from manual_trigger_while_processing [OF h o s, of 70] h o s show ?thesis by simp
qed

text \<open>
  The handler checks the owner before the status: the same trigger sent by another user
  is answered 403, and starts no run either.
\<close>

lemma manual_trigger_by_other_user:
  assumes "Meeting_find_by_id d mid = Some m" and "m_user_id m \<noteq> uid"
  shows "MeetingProcess_post d mid uid now =
           (\<lparr>success = False, text_of = ''Access denied'', code = 403\<rparr>, None, d)"
  using assms by (simp add: MeetingProcess_post_def)

subsection \<open>Processing one email\<close>

text \<open>
  C6. An email whose extracted sender address equals the user's own address, both in
  lower case, is skipped: the routine returns \<open>False\<close> and the store is unchanged, so
  no task and no ledger record is created, whatever the email says and whatever the
  extraction service would answer.
\<close>

theorem own_email_creates_nothing:
  assumes "lower (extract_sender_email (ed_from (parse_email msg))) =
           lower (case u_email usr of None \<Rightarrow> [] | Some e \<Rightarrow> e)"
  shows "process_email_for_tasks w d msg usr now = (False, d)
       \<and> tasks (snd (process_email_for_tasks w d msg usr now)) = tasks d
       \<and> processed_emails (snd (process_email_for_tasks w d msg usr now)) = processed_emails d"
  using assms by (simp add: process_email_for_tasks_def Let_def)

lemma own_message_sender:
  "lower (extract_sender_email (ed_from (parse_email own_message))) = ''ann@example.com''"
  by (simp add: own_message_def parse_email_def header_value_def extract_sender_email_def
      group_at_def lower_def char_lower_def)

theorem own_email_creates_nothing_witness:
  "lower (extract_sender_email (ed_from (parse_email own_message))) =
     lower (case u_email sample_user of None \<Rightarrow> [] | Some e \<Rightarrow> e)
   \<and> process_email_for_tasks sample_env sample_store own_message sample_user 60 =
     (False, sample_store)"
proof -
  have h: "lower (extract_sender_email (ed_from (parse_email own_message))) =
     lower (case u_email sample_user of None \<Rightarrow> [] | Some e \<Rightarrow> e)"
    by (simp add: own_message_sender) (simp add: sample_user_def lower_def char_lower_def)
  from own_email_creates_nothing [OF h, of sample_env sample_store 60] h
  show ?thesis by simp
qed



text \<open>
  C3. When the answer of the extraction service, with its code fence removed, is not
  valid JSON, \<open>_parse_gemini_response\<close> returns \<open>None\<close>. An email for which the pipeline
  got that answer (it is not the user's own, it is not in the ledger, and the Gemini
  service could be built) is then recorded in the ledger with \<open>tasks_created = 0\<close>, and
  no task is created.
\<close>

theorem non_json_response_ledgered:
  assumes "json_loads w (clean_response response_text) = None"
  shows "parse_gemini_response w response_text = None
       \<and> (lower (extract_sender_email (ed_from (parse_email msg))) \<noteq>
            lower (case u_email usr of None \<Rightarrow> [] | Some e \<Rightarrow> e)
          \<and> \<not> is_processed d (em_id msg) (u_id usr)
          \<and> gemini_init w = None
          \<and> generate_extraction w (ed_subject (parse_email msg)) (ed_body (parse_email msg)) =
              Inr response_text
          \<longrightarrow> process_email_for_tasks w d msg usr now =
               (False,
                d\<lparr>processed_emails := processed_emails d @
                     [\<lparr>pe_email_id = em_id msg, pe_user_id = u_id usr,
                       pe_tasks_created = 0, pe_processed_at = now\<rparr>]\<rparr>)
            \<and> tasks (snd (process_email_for_tasks w d msg usr now)) = tasks d)"
proof -
  have parse: "parse_gemini_response w response_text = None"
    using assms by (simp add: parse_gemini_response_def)
  have id: "ed_message_id (parse_email msg) = em_id msg"
    by (simp add: parse_email_def)
  {
    assume other: "lower (extract_sender_email (ed_from (parse_email msg))) \<noteq>
            lower (case u_email usr of None \<Rightarrow> [] | Some e \<Rightarrow> e)"
      and fresh: "\<not> is_processed d (em_id msg) (u_id usr)"
      and init: "gemini_init w = None"
      and answer: "generate_extraction w (ed_subject (parse_email msg))
                     (ed_body (parse_email msg)) = Inr response_text"
    have none: "extract_task_from_email w (ed_subject (parse_email msg))
                  (ed_body (parse_email msg)) = None"
      by (simp add: extract_task_from_email_def answer parse)
    have "process_email_for_tasks w d msg usr now =
            (False, snd (mark_as_processed d (em_id msg) (u_id usr) 0 now))"
      using other fresh init none
      by (simp add: process_email_for_tasks_def Let_def id)
    then have "process_email_for_tasks w d msg usr now =
               (False,
                d\<lparr>processed_emails := processed_emails d @
                     [\<lparr>pe_email_id = em_id msg, pe_user_id = u_id usr,
                       pe_tasks_created = 0, pe_processed_at = now\<rparr>]\<rparr>)"
      by (simp add: mark_as_processed_fresh [OF fresh])
  }
  with parse show ?thesis by auto
qed

lemma plain_message_not_json:
  "json_loads sample_env (clean_response (em_body plain_message)) = None"
  by (simp add: sample_env_def plain_message_def clean_response_def strip_def
      sub_fence_json_def sub_fence_open_def fence_at_def is_space_def
      extraction_text_def summary_text_def)

lemma bob_is_not_ann:
  "lower (extract_sender_email ''Bob <bob@example.com>'') \<noteq>
     lower (case u_email sample_user of None \<Rightarrow> [] | Some e \<Rightarrow> e)"
  by (simp add: extract_sender_email_def group_at_def lower_def char_lower_def
      sample_user_def)

theorem non_json_response_ledgered_witness:
  "json_loads sample_env (clean_response (em_body plain_message)) = None
   \<and> parse_gemini_response sample_env (em_body plain_message) = None
   \<and> process_email_for_tasks sample_env sample_store plain_message sample_user 60 =
       (False,
        sample_store\<lparr>processed_emails :=
          [\<lparr>pe_email_id = ''msg-plain'', pe_user_id = 7,
            pe_tasks_created = 0, pe_processed_at = 60\<rparr>]\<rparr>)
   \<and> tasks (snd (process_email_for_tasks sample_env sample_store plain_message sample_user 60)) = []"
proof -
  have other: "lower (extract_sender_email (ed_from (parse_email plain_message))) \<noteq>
      lower (case u_email sample_user of None \<Rightarrow> [] | Some e \<Rightarrow> e)"
    using bob_is_not_ann by (simp add: parse_email_def plain_message_def header_value_def)
  have fresh: "\<not> is_processed sample_store (em_id plain_message) (u_id sample_user)"
    by (simp add: is_processed_def find_processed_def sample_store_def)
  have init: "gemini_init sample_env = None"
    by (simp add: sample_env_def)
  have answer: "generate_extraction sample_env (ed_subject (parse_email plain_message))
      (ed_body (parse_email plain_message)) = Inr (em_body plain_message)"
    by (simp add: sample_env_def parse_email_def)
  have ids: "em_id plain_message = ''msg-plain''" "u_id sample_user = 7"
    "processed_emails sample_store = []" "tasks sample_store = []"
    by (simp_all add: plain_message_def sample_user_def sample_store_def)
  from non_json_response_ledgered [OF plain_message_not_json,
      of plain_message sample_user sample_store 60]
    plain_message_not_json other fresh init answer ids
  show ?thesis by simp
qed



subsection \<open>Priorities\<close>

lemma dict_get_update:
  "dict_get (AList.update k v d) k' = (if k' = k then v else dict_get d k')"
  by (simp add: dict_get_def update_conv')

lemma parse_task_deadline_priority:
  "parse_task_deadline w t = Inr t' \<Longrightarrow> dict_get t' ''priority'' = dict_get t ''priority''"
  by (auto simp: parse_task_deadline_def dict_get_update
      split: if_splits pyval.splits option.splits)

lemma check_item_deadline_priority:
  "check_item_deadline w t = Inr t' \<Longrightarrow> dict_get t' ''priority'' = dict_get t ''priority''"
  by (auto simp: check_item_deadline_def dict_get_update
      split: if_splits pyval.splits option.splits)

lemma fixed_priority:
  "dict_get (if dict_get t ''priority'' \<notin> set valid_priorities
             then AList.update ''priority'' (PStr ''medium'') t else t) ''priority'' =
   normal_priority (dict_get t ''priority'')"
  by (simp add: normal_priority_def dict_get_update)

lemma validate_tasks_priority:
  "validate_tasks w ts = Inr vs \<Longrightarrow>
   list_all2 priority_normalized (filter has_required_fields ts) vs"
proof (induction w ts arbitrary: vs rule: validate_tasks.induct)
  case (1 w)
  then show ?case by simp
next
  case (2 w task rest)
  show ?case
  proof (cases "truthy (dict_get task ''title'') \<and> truthy (dict_get task ''description'')")
    case False
    then have "\<not> has_required_fields (PDict task)"
      by (simp add: has_required_fields_def)
    with False 2 show ?thesis by auto
  next
    case True
    let ?t1 = "if dict_get task ''priority'' \<notin> set valid_priorities
               then AList.update ''priority'' (PStr ''medium'') task else task"
    from True "2.prems" obtain t2 validated where
      t2: "parse_task_deadline w ?t1 = Inr t2"
      and rest: "validate_tasks w rest = Inr validated"
      and vs: "vs = PDict t2 # validated"
      by (auto simp: Let_def split: sum.splits)
    from "2.IH"(2) [OF _ refl t2 rest] True
    have ih: "list_all2 priority_normalized (filter has_required_fields rest) validated"
      by simp
    have "dict_get t2 ''priority'' = normal_priority (dict_get task ''priority'')"
      using parse_task_deadline_priority [OF t2] fixed_priority [of task] by simp
    then have "priority_normalized (PDict task) (PDict t2)"
      by (simp add: priority_normalized_def)
    moreover from True have "has_required_fields (PDict task)"
      by (simp add: has_required_fields_def)
    ultimately show ?thesis using ih vs by simp
  qed
qed simp_all

lemma process_action_items_priority:
  "process_action_items w items = Inr items' \<Longrightarrow> list_all2 priority_normalized items items'"
proof (induction w items arbitrary: items' rule: process_action_items.induct)
  case (1 w)
  then show ?case by simp
next
  case (2 w item rest)
  let ?i1 = "if dict_get item ''priority'' \<notin> set valid_priorities
             then AList.update ''priority'' (PStr ''medium'') item else item"
  from "2.prems" obtain i2 finished where
    i2: "check_item_deadline w ?i1 = Inr i2"
    and rest: "process_action_items w rest = Inr finished"
    and res: "items' = PDict i2 # finished"
    by (auto simp: Let_def split: sum.splits)
  from "2.IH" [OF refl i2 rest]
  have ih: "list_all2 priority_normalized rest finished" .
  have "dict_get i2 ''priority'' = normal_priority (dict_get item ''priority'')"
    using check_item_deadline_priority [OF i2] fixed_priority [of item] by simp
  then have "priority_normalized (PDict item) (PDict i2)"
    by (simp add: priority_normalized_def)
  with ih res show ?case by simp
qed simp_all

lemma list_all2_priority_dicts:
  "list_all2 priority_normalized xs ys \<Longrightarrow> y \<in> set ys \<Longrightarrow> \<exists>d. y = PDict d"
  by (induction rule: list_all2_induct)
     (auto simp: priority_normalized_def split: pyval.splits)

lemma extraction_result_tasks:
  assumes "list_all2 priority_normalized xs vs" and "vs \<noteq> []"
  shows "dict_get (extraction_result vs) ''tasks'' = PList vs"
proof -
  from assms(2) have "hd vs \<in> set vs" by simp
  from list_all2_priority_dicts [OF assms(1) this] obtain d where "hd vs = PDict d" ..
  then show ?thesis by (simp add: extraction_result_def dict_get_def)
qed



subsection \<open>The two sample answers\<close>

lemma clean_extraction_text:
  "clean_response extraction_text = extraction_text"
  by (simp add: clean_response_def strip_def sub_fence_json_def sub_fence_open_def
      fence_at_def is_space_def extraction_text_def)

lemma clean_summary_text:
  "clean_response summary_text = summary_text"
  by (simp add: clean_response_def strip_def sub_fence_json_def sub_fence_open_def
      fence_at_def is_space_def summary_text_def)

lemma texts_differ:
  "summary_text \<noteq> extraction_text"
  by (simp add: summary_text_def extraction_text_def)

lemma loads_extraction_text:
  "json_loads sample_env (clean_response extraction_text) = Some extraction_value"
  by (simp add: clean_extraction_text sample_env_def)

lemma loads_summary_text:
  "json_loads sample_env (clean_response summary_text) = Some summary_value"
  by (simp add: clean_summary_text sample_env_def texts_differ)

lemma strptime_sample:
  "strptime sample_env s = (if s = ''2025-11-22'' then Some 1763769600 else None)"
  by (simp add: sample_env_def)

lemma parse_extraction_text:
  "parse_gemini_response sample_env extraction_text = Some extraction_parsed"
  by (simp add: parse_gemini_response_def loads_extraction_text extraction_value_def
      dict_get_default_def dict_get_def valid_priorities_def parse_task_deadline_def
      strptime_sample extraction_result_def extraction_parsed_def extraction_validated_def)

lemma parse_summary_text:
  "parse_meeting_summary_response sample_env summary_text = Some summary_parsed"
  by (simp add: parse_meeting_summary_response_def loads_summary_text summary_value_def
      required_fields_def py_iter_def
      dict_get_default_def dict_get_def valid_priorities_def check_item_deadline_def
      strptime_sample summary_parsed_def summary_items_def)



text \<open>
  C7. Whenever the normalizer returns a result, every candidate in it has the normal
  priority of the candidate it comes from: \<open>medium\<close> when the decoded priority is absent
  or is not one of \<open>low\<close>, \<open>medium\<close>, \<open>high\<close>. For an email answer the candidates of the
  result are, in order, the decoded tasks that have a title and a description; for a
  meeting summary they are all decoded action items.
\<close>

theorem invalid_priority_becomes_medium:
  "(json_loads w (clean_response response_text) = Some (PDict response_data)
      \<and> parse_gemini_response w response_text = Some result
    \<longrightarrow> (\<exists>task_list validated.
           dict_get response_data ''tasks'' = PList task_list
         \<and> dict_get result ''tasks'' = PList validated
         \<and> list_all2 priority_normalized (filter has_required_fields task_list) validated))
 \<and> (json_loads w (clean_response summary_response) = Some (PDict summary_data)
      \<and> parse_meeting_summary_response w summary_response = Some summary
    \<longrightarrow> (\<exists>items items'.
           py_iter (dict_get summary_data ''action_items'') = Inr items
         \<and> py_iter (dict_get summary ''action_items'') = Inr items'
         \<and> list_all2 priority_normalized items items'))"
proof (intro conjI impI)
  assume "json_loads w (clean_response response_text) = Some (PDict response_data)
      \<and> parse_gemini_response w response_text = Some result"
  then obtain task_list validated where
    tl: "dict_get_default response_data ''tasks'' (PList []) = PList task_list"
    and ne: "task_list \<noteq> []"
    and v: "validate_tasks w task_list = Inr validated"
    and vne: "validated \<noteq> []"
    and res: "result = extraction_result validated"
    by (auto simp: parse_gemini_response_def split: if_splits pyval.splits sum.splits)
  from tl ne have "dict_get response_data ''tasks'' = PList task_list"
    by (auto simp: dict_get_default_def dict_get_def split: option.splits)
  moreover have all: "list_all2 priority_normalized (filter has_required_fields task_list) validated"
    by (rule validate_tasks_priority [OF v])
  moreover have "dict_get result ''tasks'' = PList validated"
    unfolding res by (rule extraction_result_tasks [OF all vne])
  ultimately show "\<exists>task_list validated.
           dict_get response_data ''tasks'' = PList task_list
         \<and> dict_get result ''tasks'' = PList validated
         \<and> list_all2 priority_normalized (filter has_required_fields task_list) validated"
    by blast
next
  assume a: "json_loads w (clean_response summary_response) = Some (PDict summary_data)
      \<and> parse_meeting_summary_response w summary_response = Some summary"
  then have present: "map_of summary_data ''action_items'' \<noteq> None"
    by (auto simp: parse_meeting_summary_response_def required_fields_def split: if_splits)
  then have same: "dict_get_default summary_data ''action_items'' (PList []) =
      dict_get summary_data ''action_items''"
    by (auto simp: dict_get_default_def dict_get_def)
  from a obtain items items' where
    it: "py_iter (dict_get summary_data ''action_items'') = Inr items"
    and pr: "process_action_items w items = Inr items'"
    and res: "(case dict_get summary_data ''action_items'' of
                PList _ \<Rightarrow> Some (AList.update ''action_items'' (PList items') summary_data)
              | _ \<Rightarrow> Some summary_data) = Some summary"
    by (auto simp: parse_meeting_summary_response_def Let_def same
        split: if_splits sum.splits)
  have all: "list_all2 priority_normalized items items'"
    by (rule process_action_items_priority [OF pr])
  show "\<exists>items items'.
           py_iter (dict_get summary_data ''action_items'') = Inr items
         \<and> py_iter (dict_get summary ''action_items'') = Inr items'
         \<and> list_all2 priority_normalized items items'"
  proof (cases "\<exists>xs. dict_get summary_data ''action_items'' = PList xs")
    case True
    then obtain xs where xs: "dict_get summary_data ''action_items'' = PList xs" ..
    with res have "summary = AList.update ''action_items'' (PList items') summary_data"
      by simp
    then have "py_iter (dict_get summary ''action_items'') = Inr items'"
      by (simp add: dict_get_update py_iter_def)
    with it all show ?thesis by blast
  next
    case False
    with res have s: "summary = summary_data"
      by (auto split: pyval.splits)
    from False it have "\<forall>x \<in> set items. \<exists>t. x = PStr t"
      by (auto simp: py_iter_def split: pyval.splits)
    with all have "items = []"
      by (cases items) (auto simp: priority_normalized_def list_all2_Cons1)
    with it s show ?thesis by auto
  qed
qed

theorem invalid_priority_becomes_medium_witness:
  "json_loads sample_env (clean_response extraction_text) = Some extraction_value
   \<and> parse_gemini_response sample_env extraction_text = Some extraction_parsed
   \<and> (\<exists>task_list validated.
         dict_get [(''has_tasks'', PBool True),
            (''tasks'', PList
              [PDict [(''title'', PStr ''Send report''), (''description'', PStr ''Send it''),
                      (''priority'', PStr ''urgent''), (''deadline'', PStr ''next Friday'')],
               PDict [(''title'', PStr ''Fix bug''), (''description'', PStr ''Fix it''),
                      (''priority'', PStr ''high''), (''deadline'', PStr ''2025-11-22'')],
               PDict [(''title'', PStr ''No description'')]])] ''tasks'' = PList task_list
       \<and> dict_get extraction_parsed ''tasks'' = PList validated
       \<and> list_all2 priority_normalized (filter has_required_fields task_list) validated)
   \<and> json_loads sample_env (clean_response summary_text) = Some summary_value
   \<and> parse_meeting_summary_response sample_env summary_text = Some summary_parsed
   \<and> (\<exists>items items'.
         py_iter (dict_get [(''summary'', PStr ''Sync''),
            (''key_points'', PList []),
            (''action_items'', PList
              [PDict [(''description'', PStr ''Update docs''), (''priority'', PStr ''urgent''),
                      (''deadline'', PStr [])],
               PDict [(''description'', PStr ''Book a room''), (''deadline'', PStr ''Friday'')],
               PDict [(''description'', PStr ''Ship''), (''priority'', PStr ''low''),
                      (''deadline'', PStr ''2025-11-22'')]])] ''action_items'') = Inr items
       \<and> py_iter (dict_get summary_parsed ''action_items'') = Inr items'
       \<and> list_all2 priority_normalized items items')
   \<and> map (\<lambda>c. case c of PDict r \<Rightarrow> dict_get r ''priority'' | _ \<Rightarrow> PNone) extraction_validated =
       [PStr ''medium'', PStr ''high'']
   \<and> map (\<lambda>c. case c of PDict r \<Rightarrow> dict_get r ''priority'' | _ \<Rightarrow> PNone) summary_items =
       [PStr ''medium'', PStr ''medium'', PStr ''low'']"
proof -
  have e: "json_loads sample_env (clean_response extraction_text) =
      Some (PDict [(''has_tasks'', PBool True),
            (''tasks'', PList
              [PDict [(''title'', PStr ''Send report''), (''description'', PStr ''Send it''),
                      (''priority'', PStr ''urgent''), (''deadline'', PStr ''next Friday'')],
               PDict [(''title'', PStr ''Fix bug''), (''description'', PStr ''Fix it''),
                      (''priority'', PStr ''high''), (''deadline'', PStr ''2025-11-22'')],
               PDict [(''title'', PStr ''No description'')]])])"
    using loads_extraction_text by (simp add: extraction_value_def)
  have s: "json_loads sample_env (clean_response summary_text) =
      Some (PDict [(''summary'', PStr ''Sync''),
            (''key_points'', PList []),
            (''action_items'', PList
              [PDict [(''description'', PStr ''Update docs''), (''priority'', PStr ''urgent''),
                      (''deadline'', PStr [])],
               PDict [(''description'', PStr ''Book a room''), (''deadline'', PStr ''Friday'')],
               PDict [(''description'', PStr ''Ship''), (''priority'', PStr ''low''),
                      (''deadline'', PStr ''2025-11-22'')]])])"
    using loads_summary_text by (simp add: summary_value_def)
  have p: "map (\<lambda>c. case c of PDict r \<Rightarrow> dict_get r ''priority'' | _ \<Rightarrow> PNone)
             extraction_validated = [PStr ''medium'', PStr ''high'']"
    "map (\<lambda>c. case c of PDict r \<Rightarrow> dict_get r ''priority'' | _ \<Rightarrow> PNone) summary_items =
       [PStr ''medium'', PStr ''medium'', PStr ''low'']"
    by (simp_all add: extraction_validated_def summary_items_def dict_get_def)
  note t = invalid_priority_becomes_medium [where w = sample_env
      and response_text = extraction_text and result = extraction_parsed
      and summary_response = summary_text and summary = summary_parsed, OF]
  from t [THEN conjunct1, rule_format, OF conjI [OF e parse_extraction_text]]
    t [THEN conjunct2, rule_format, OF conjI [OF s parse_summary_text]]
    loads_extraction_text loads_summary_text parse_extraction_text parse_summary_text p
  show ?thesis by blast
qed



subsection \<open>What each store operation leaves alone\<close>

lemma find_None_iff_map:
  "(find (\<lambda>x. f x = k) xs = None) = (k \<notin> set (map f xs))"
  by (induction xs) auto

lemma map_update_first_same:
  assumes "\<And>x. g (f x) = g x"
  shows "map g (update_first P f xs) = map g xs"
  using assms by (induction xs) auto

lemma update_status_frame [simp]:
  "users (update_status d i s p e now) = users d"
  "tasks (update_status d i s p e now) = tasks d"
  "processed_emails (update_status d i s p e now) = processed_emails d"
  "meeting_transcripts (update_status d i s p e now) = meeting_transcripts d"
  "meeting_summaries (update_status d i s p e now) = meeting_summaries d"
  "next_id (update_status d i s p e now) = next_id d"
  by (simp_all add: update_status_def split: option.splits)

lemma update_status_ids [simp]:
  "map m_id (meetings (update_status d i s p e now)) = map m_id (meetings d)"
  by (simp add: update_status_def map_update_first_same split: option.splits)

lemma update_status_writes:
  "writes (update_status d i s p e now) =
     writes d @ (if Meeting_find_by_id d i = None then [] else [MeetingStatus i s])"
  by (simp add: update_status_def split: option.splits)

lemma update_status_found:
  "Meeting_find_by_id (update_status d i s p e now) i =
     map_option (set_status s p e now) (Meeting_find_by_id d i)"
  by (simp add: update_status_def Meeting_find_by_id_def find_update_first
      split: option.splits)

lemma Meeting_find_by_id_None:
  "(Meeting_find_by_id d i = None) = (i \<notin> set (map m_id (meetings d)))"
  unfolding Meeting_find_by_id_def by (rule find_None_iff_map)

lemma User_find_by_id_update_status [simp]:
  "User_find_by_id (update_status d i s p e now) u = User_find_by_id d u"
  by (simp add: User_find_by_id_def)

lemma MeetingTranscript_create_frame [simp]:
  "users (snd (MeetingTranscript_create d i u t now)) = users d"
  "tasks (snd (MeetingTranscript_create d i u t now)) = tasks d"
  "processed_emails (snd (MeetingTranscript_create d i u t now)) = processed_emails d"
  "meetings (snd (MeetingTranscript_create d i u t now)) = meetings d"
  "meeting_summaries (snd (MeetingTranscript_create d i u t now)) = meeting_summaries d"
  "next_id (snd (MeetingTranscript_create d i u t now)) = next_id d"
  "writes (snd (MeetingTranscript_create d i u t now)) = writes d"
  by (simp_all add: MeetingTranscript_create_def)

lemma MeetingSummary_create_frame [simp]:
  "users (snd (MeetingSummary_create d i u a b c e f g h now)) = users d"
  "tasks (snd (MeetingSummary_create d i u a b c e f g h now)) = tasks d"
  "processed_emails (snd (MeetingSummary_create d i u a b c e f g h now)) = processed_emails d"
  "meetings (snd (MeetingSummary_create d i u a b c e f g h now)) = meetings d"
  "meeting_transcripts (snd (MeetingSummary_create d i u a b c e f g h now)) =
     meeting_transcripts d"
  "next_id (snd (MeetingSummary_create d i u a b c e f g h now)) = next_id d"
  "writes (snd (MeetingSummary_create d i u a b c e f g h now)) = writes d"
  by (simp_all add: MeetingSummary_create_def)

lemma update_task_id_frame [simp]:
  "users (update_task_id d i k t now) = users d"
  "tasks (update_task_id d i k t now) = tasks d"
  "processed_emails (update_task_id d i k t now) = processed_emails d"
  "meetings (update_task_id d i k t now) = meetings d"
  "meeting_transcripts (update_task_id d i k t now) = meeting_transcripts d"
  "next_id (update_task_id d i k t now) = next_id d"
  "writes (update_task_id d i k t now) = writes d"
  by (simp_all add: update_task_id_def)

lemma Task_create_frame [simp]:
  "users (snd (Task_create d a b c e f g h i j k l m n p q now)) = users d"
  "processed_emails (snd (Task_create d a b c e f g h i j k l m n p q now)) = processed_emails d"
  "meetings (snd (Task_create d a b c e f g h i j k l m n p q now)) = meetings d"
  "meeting_transcripts (snd (Task_create d a b c e f g h i j k l m n p q now)) =
     meeting_transcripts d"
  "meeting_summaries (snd (Task_create d a b c e f g h i j k l m n p q now)) =
     meeting_summaries d"
  "writes (snd (Task_create d a b c e f g h i j k l m n p q now)) = writes d"
  "tasks (snd (Task_create d a b c e f g h i j k l m n p q now)) =
     tasks d @ [fst (Task_create d a b c e f g h i j k l m n p q now)]"
  by (simp_all add: Task_create_def Let_def)

lemma Task_create_fields [simp]:
  "t_user_email (fst (Task_create d a b c e f g h i j k l m n p q now)) = q"
  "t_deadline (fst (Task_create d a b c e f g h i j k l m n p q now)) = e"
  "t_priority (fst (Task_create d a b c e f g h i j k l m n p q now)) = c"
  by (simp_all add: Task_create_def Let_def)

lemma mark_as_processed_frame [simp]:
  "users (snd (mark_as_processed d i u n now)) = users d"
  "tasks (snd (mark_as_processed d i u n now)) = tasks d"
  "meetings (snd (mark_as_processed d i u n now)) = meetings d"
  "writes (snd (mark_as_processed d i u n now)) = writes d"
  by (simp_all add: mark_as_processed_def insert_processed_email_def Let_def)



subsection \<open>The task loops\<close>

lemma create_meeting_tasks_all:
  "users (snd (create_meeting_tasks d items idx m usr now c)) = users d
 \<and> meetings (snd (create_meeting_tasks d items idx m usr now c)) = meetings d
 \<and> writes (snd (create_meeting_tasks d items idx m usr now c)) = writes d
 \<and> processed_emails (snd (create_meeting_tasks d items idx m usr now c)) = processed_emails d"
proof (induction d items idx m usr now c rule: create_meeting_tasks.induct)
  case (2 d action_item rest idx mtg usr now tasks_created)
  show ?case
  proof (cases "map_of action_item ''description''")
    case None
    with "2.IH"(1) show ?thesis by simp
  next
    case (Some description)
    show ?thesis
    proof (cases "py_slice100 description")
      case None
      with \<open>map_of action_item ''description'' = Some description\<close> "2.IH"(2)
      show ?thesis by simp
    next
      case (Some title)
      from "2.IH"(3) [OF \<open>map_of action_item ''description'' = Some description\<close> Some
          prod.collapse]
        \<open>map_of action_item ''description'' = Some description\<close> Some
      show ?thesis by (simp add: split_beta)
    qed
  qed
qed simp_all

lemma create_meeting_tasks_frame [simp]:
  "users (snd (create_meeting_tasks d items idx m usr now c)) = users d"
  "meetings (snd (create_meeting_tasks d items idx m usr now c)) = meetings d"
  "writes (snd (create_meeting_tasks d items idx m usr now c)) = writes d"
  "processed_emails (snd (create_meeting_tasks d items idx m usr now c)) = processed_emails d"
  using create_meeting_tasks_all [of d items idx m usr now c] by simp_all

lemma create_meeting_tasks_new:
  "\<exists>new. tasks (snd (create_meeting_tasks d items idx m usr now c)) = tasks d @ new
        \<and> (\<forall>t \<in> set new. t_user_email t = u_email usr)
        \<and> map t_deadline new = map item_deadline (filter task_made_from items)"
proof (induction d items idx m usr now c rule: create_meeting_tasks.induct)
  case (1 d idx mtg usr now tasks_created)
  then show ?case by simp
next
  case (2 d action_item rest idx mtg usr now tasks_created)
  show ?case
  proof (cases "map_of action_item ''description''")
    case None
    with "2.IH"(1) show ?thesis
      by (simp add: task_made_from_def)
  next
    case (Some description)
    show ?thesis
    proof (cases "py_slice100 description")
      case None
      with Some "2.IH"(2) show ?thesis
        by (simp add: task_made_from_def)
    next
      case (Some title)
      let ?c = "Task_create d title
                  (dict_get_default action_item ''context'' description)
                  (dict_get_default action_item ''priority'' (PStr ''medium''))
                  (dict_get action_item ''deadline'')
                  (Some (m_user_id mtg)) (Some (m_user_id mtg)) ''pending'' None None PNone
                  ''meeting'' (Some (m_id mtg)) (Some (m_title mtg)) (Some (m_start_time mtg))
                  (u_email usr) now"
      let ?d = "update_task_id (snd ?c) (m_id mtg) idx (t_id (fst ?c)) now"
      from "2.IH"(3) [OF \<open>map_of action_item ''description'' = Some description\<close> Some
          prod.collapse]
      obtain new where
        new: "tasks (snd (create_meeting_tasks ?d rest (Suc idx) mtg usr now (Suc tasks_created))) =
                tasks ?d @ new"
        and em: "\<forall>t \<in> set new. t_user_email t = u_email usr"
        and dl: "map t_deadline new = map item_deadline (filter task_made_from rest)"
        by blast
      have made: "task_made_from (PDict action_item)"
        using \<open>map_of action_item ''description'' = Some description\<close> Some
        by (simp add: task_made_from_def)
      have "tasks (snd (create_meeting_tasks d (PDict action_item # rest) idx mtg usr now
                tasks_created)) = tasks d @ (fst ?c # new)"
        using \<open>map_of action_item ''description'' = Some description\<close> Some new
        by (simp add: split_beta)
      moreover have "\<forall>t \<in> set (fst ?c # new). t_user_email t = u_email usr"
        using em by simp
      moreover have "map t_deadline (fst ?c # new) =
          map item_deadline (filter task_made_from (PDict action_item # rest))"
        using dl made by (simp add: item_deadline_def)
      ultimately show ?thesis by blast
    qed
  qed
qed (simp_all add: task_made_from_def)

lemma create_email_tasks_all:
  "users (snd (create_email_tasks d xs email sender usr labels now c)) = users d
 \<and> meetings (snd (create_email_tasks d xs email sender usr labels now c)) = meetings d
 \<and> writes (snd (create_email_tasks d xs email sender usr labels now c)) = writes d
 \<and> processed_emails (snd (create_email_tasks d xs email sender usr labels now c)) =
     processed_emails d"
proof (induction d xs email sender usr labels now c rule: create_email_tasks.induct)
  case (2 d task_info rest email sender_email usr labels now created_count)
  from "2.IH" [OF prod.collapse] show ?case
    by (simp add: split_beta)
qed simp_all

lemma create_email_tasks_frame [simp]:
  "users (snd (create_email_tasks d xs email sender usr labels now c)) = users d"
  "meetings (snd (create_email_tasks d xs email sender usr labels now c)) = meetings d"
  "writes (snd (create_email_tasks d xs email sender usr labels now c)) = writes d"
  "processed_emails (snd (create_email_tasks d xs email sender usr labels now c)) =
     processed_emails d"
  using create_email_tasks_all [of d xs email sender usr labels now c] by simp_all

lemma create_email_tasks_new:
  "\<exists>new. tasks (snd (create_email_tasks d xs email sender usr labels now c)) = tasks d @ new
        \<and> (\<forall>t \<in> set new. t_user_email t = u_email usr)"
proof (induction d xs email sender usr labels now c rule: create_email_tasks.induct)
  case (2 d task_info rest email sender_email usr labels now created_count)
  let ?c = "Task_create d
             (dict_get_default task_info ''title'' (PStr (ed_subject email)))
             (dict_get_default task_info ''description'' (PStr []))
             (dict_get_default task_info ''priority'' (PStr ''medium''))
             (dict_get task_info ''deadline'')
             (Some (u_id usr)) (Some (u_id usr)) ''pending''
             (Some (ed_message_id email)) (Some sender_email) labels ''email''
             None None None (u_email usr) now"
  from "2.IH" [OF prod.collapse]
  obtain new where
    "tasks (snd (create_email_tasks (snd ?c) rest email sender_email usr labels now
       (Suc created_count))) = tasks (snd ?c) @ new"
    and "\<forall>t \<in> set new. t_user_email t = u_email usr"
    by blast
  then have "tasks (snd (create_email_tasks d (PDict task_info # rest) email sender_email usr
       labels now created_count)) = tasks d @ (fst ?c # new)
     \<and> (\<forall>t \<in> set (fst ?c # new). t_user_email t = u_email usr)"
    by (simp add: split_beta)
  then show ?case by blast
qed simp_all



subsection \<open>The processing routine\<close>

lemma Meeting_find_by_id_frames [simp]:
  "Meeting_find_by_id (snd (MeetingTranscript_create d i u t now)) j = Meeting_find_by_id d j"
  "Meeting_find_by_id (snd (MeetingSummary_create d i u a b c e f g h now)) j =
     Meeting_find_by_id d j"
  "Meeting_find_by_id (snd (create_meeting_tasks d items idx m usr now k)) j =
     Meeting_find_by_id d j"
  by (simp_all add: Meeting_find_by_id_def)

lemma Meeting_find_by_id_update_status_None [simp]:
  "(Meeting_find_by_id (update_status d i s p e now) j = None) = (Meeting_find_by_id d j = None)"
  by (simp add: Meeting_find_by_id_None)

lemma set_status_status [simp]:
  "m_processing_status (set_status s p e now x) = s"
  by (simp add: set_status_def Let_def split: option.splits)

lemma set_status_message:
  "e \<noteq> [] \<Longrightarrow> m_error_message (set_status s p (Some e) now x) = Some e"
  by (simp add: set_status_def Let_def split: option.splits)

lemma writes_frames [simp]:
  "writes (snd (MeetingTranscript_create d i u t now)) = writes d"
  "writes (snd (MeetingSummary_create d i u a b c e f g h now)) = writes d"
  by simp_all

lemma process_meeting_status:
  assumes "Meeting_find_by_id d (m_id m) = Some m0"
  shows "m_processing_status (the (Meeting_find_by_id (snd (process_meeting w d m now)) (m_id m))) =
           (if fst (process_meeting w d m now) then ''completed'' else ''failed'')"
  using assms
  by (simp add: process_meeting_def process_meeting_body_def Let_def split_beta
      update_status_found split: option.splits sum.splits)



lemma process_meeting_no_document:
  assumes "reaches_lookup w d m usr" and "no_readable_document w m usr"
  shows "process_meeting w d m now =
           (False,
            update_status (update_status d (m_id m) ''processing'' None None now) (m_id m)
              ''failed'' None (Some (lookup_error w m usr)) now)"
  using assms
  by (simp add: process_meeting_def process_meeting_body_def Let_def reaches_lookup_def
      no_readable_document_def lookup_error_def split: option.splits)

lemma process_meeting_raised:
  "fst (process_meeting_body w d m now) = Inl e \<Longrightarrow> \<not> fst (process_meeting w d m now)"
  by (simp add: process_meeting_def split_beta)



lemma body_writes:
  assumes "Meeting_find_by_id d (m_id m) = Some m0"
  shows "writes (snd (process_meeting_body w d m now)) =
           writes d @
           (case fst (process_meeting_body w d m now) of
              Inl e \<Rightarrow> (if gemini_init w = None then [MeetingStatus (m_id m) ''processing'']
                        else [])
            | Inr b \<Rightarrow> [MeetingStatus (m_id m) ''processing'',
                        MeetingStatus (m_id m) (if b then ''completed'' else ''failed'')])"
  using assms
  by (simp add: process_meeting_body_def Let_def split_beta update_status_writes
      split: option.splits sum.splits)

lemma body_keeps_meeting:
  "(Meeting_find_by_id (snd (process_meeting_body w d m now)) j = None) =
   (Meeting_find_by_id d j = None)"
  by (simp add: process_meeting_body_def Let_def split_beta
      split: option.splits sum.splits)



lemma process_meeting_writes_eq:
  assumes "Meeting_find_by_id d (m_id m) = Some m0"
  shows "writes (snd (process_meeting w d m now)) =
           writes d @
           (case fst (process_meeting_body w d m now) of
              Inl e \<Rightarrow> (if gemini_init w = None then [MeetingStatus (m_id m) ''processing'']
                        else []) @ [MeetingStatus (m_id m) ''failed'']
            | Inr b \<Rightarrow> [MeetingStatus (m_id m) ''processing'',
                        MeetingStatus (m_id m) (if b then ''completed'' else ''failed'')])"
proof (cases "fst (process_meeting_body w d m now)")
  case (Inl e)
  have "Meeting_find_by_id (snd (process_meeting_body w d m now)) (m_id m) \<noteq> None"
    using assms by (simp add: body_keeps_meeting)
  with Inl show ?thesis
    by (simp add: process_meeting_def split_beta update_status_writes body_writes [OF assms])
next
  case (Inr b)
  then show ?thesis
    by (simp add: process_meeting_def split_beta body_writes [OF assms])
qed

lemma process_meeting_result:
  "fst (process_meeting w d m now) =
     (case fst (process_meeting_body w d m now) of Inl e \<Rightarrow> False | Inr b \<Rightarrow> b)"
  by (simp add: process_meeting_def split_beta split: sum.splits)

lemma process_meeting_completed_written:
  assumes "Meeting_find_by_id d (m_id m) = Some m0"
  shows "(MeetingStatus (m_id m) ''completed''
            \<in> set (drop (length (writes d)) (writes (snd (process_meeting w d m now)))))
         = fst (process_meeting w d m now)"
  by (cases "fst (process_meeting_body w d m now)")
     (simp_all add: process_meeting_writes_eq [OF assms] process_meeting_result)

lemma lookup_error_nonempty:
  "lookup_error w m usr \<noteq> []"
  by (simp add: lookup_error_def split: option.splits)

text \<open>
  C5. Let the meeting \<open>m\<close> be stored. If its processing routine reaches the document
  search and finds no document, or none it can read, the routine returns \<open>False\<close>, the
  stored meeting ends with status \<open>failed\<close> and the error message of that failure, and
  the status writes of the run are \<open>processing\<close> then \<open>failed\<close>. If an exception leaves
  the body of the routine, the routine returns \<open>False\<close>, the meeting ends \<open>failed\<close>, and
  \<open>completed\<close> is not written. In every run the final status is \<open>completed\<close> when the
  routine returns \<open>True\<close> and \<open>failed\<close> otherwise, and \<open>completed\<close> is written exactly
  when it returns \<open>True\<close>.
\<close>

theorem failed_lookup_ends_failed:
  assumes "Meeting_find_by_id d (m_id m) = Some m0"
  shows "(reaches_lookup w d m usr \<and> no_readable_document w m usr \<longrightarrow>
            fst (process_meeting w d m now) = False
          \<and> Meeting_find_by_id (snd (process_meeting w d m now)) (m_id m) =
              Some (m0\<lparr>m_processing_status := ''failed'', m_updated_at := now,
                       m_error_message := Some (lookup_error w m usr)\<rparr>)
          \<and> writes (snd (process_meeting w d m now)) =
              writes d @ [MeetingStatus (m_id m) ''processing'',
                          MeetingStatus (m_id m) ''failed''])
       \<and> (fst (process_meeting_body w d m now) = Inl e \<longrightarrow>
            fst (process_meeting w d m now) = False
          \<and> m_processing_status
              (the (Meeting_find_by_id (snd (process_meeting w d m now)) (m_id m))) = ''failed''
          \<and> MeetingStatus (m_id m) ''completed''
              \<notin> set (drop (length (writes d)) (writes (snd (process_meeting w d m now)))))
       \<and> m_processing_status
            (the (Meeting_find_by_id (snd (process_meeting w d m now)) (m_id m))) =
            (if fst (process_meeting w d m now) then ''completed'' else ''failed'')
       \<and> (MeetingStatus (m_id m) ''completed''
            \<in> set (drop (length (writes d)) (writes (snd (process_meeting w d m now)))))
          = fst (process_meeting w d m now)"
proof (intro conjI impI)
  assume h: "reaches_lookup w d m usr \<and> no_readable_document w m usr"
  then have pm: "process_meeting w d m now =
           (False,
            update_status (update_status d (m_id m) ''processing'' None None now) (m_id m)
              ''failed'' None (Some (lookup_error w m usr)) now)"
    by (simp add: process_meeting_no_document)
  show "fst (process_meeting w d m now) = False"
    by (simp add: pm)
  show "Meeting_find_by_id (snd (process_meeting w d m now)) (m_id m) =
              Some (m0\<lparr>m_processing_status := ''failed'', m_updated_at := now,
                       m_error_message := Some (lookup_error w m usr)\<rparr>)"
    using assms lookup_error_nonempty [of w m usr]
    by (simp add: pm update_status_found set_status_def)
  show "writes (snd (process_meeting w d m now)) =
              writes d @ [MeetingStatus (m_id m) ''processing'',
                          MeetingStatus (m_id m) ''failed'']"
    using assms by (simp add: pm update_status_writes)
next
  assume e: "fst (process_meeting_body w d m now) = Inl e"
  then show r: "fst (process_meeting w d m now) = False"
    by (simp add: process_meeting_result)
  from r show "m_processing_status
      (the (Meeting_find_by_id (snd (process_meeting w d m now)) (m_id m))) = ''failed''"
    by (simp add: process_meeting_status [OF assms])
  from r show "MeetingStatus (m_id m) ''completed''
      \<notin> set (drop (length (writes d)) (writes (snd (process_meeting w d m now))))"
    by (simp add: process_meeting_completed_written [OF assms])
next
  show "m_processing_status
            (the (Meeting_find_by_id (snd (process_meeting w d m now)) (m_id m))) =
            (if fst (process_meeting w d m now) then ''completed'' else ''failed'')"
    by (rule process_meeting_status [OF assms])
  show "(MeetingStatus (m_id m) ''completed''
            \<in> set (drop (length (writes d)) (writes (snd (process_meeting w d m now)))))
          = fst (process_meeting w d m now)"
    by (rule process_meeting_completed_written [OF assms])
qed



lemma pending_meeting_stored:
  "Meeting_find_by_id pending_store (m_id pending_meeting) = Some pending_meeting"
  by (simp add: Meeting_find_by_id_def pending_store_def sample_store_def)

lemma pending_reaches_lookup:
  "reaches_lookup sample_env pending_store pending_meeting sample_user"
  by (simp add: reaches_lookup_def sample_env_def User_find_by_id_def pending_store_def
      sample_store_def pending_meeting_def sample_meeting_def sample_user_def)

lemma pending_no_document:
  "no_readable_document sample_env pending_meeting sample_user"
  "lookup_error sample_env pending_meeting sample_user =
     ''No transcript or Gemini notes found in Google Drive''"
  by (simp_all add: no_readable_document_def lookup_error_def sample_env_def)

lemma no_key_raises:
  "fst (process_meeting_body no_key_env pending_store pending_meeting 60) =
     Inl (ValueError ''GEMINI_API_KEY not found in environment variables'')"
  by (simp add: process_meeting_body_def no_key_env_def Let_def)

theorem failed_lookup_ends_failed_witness:
  "Meeting_find_by_id pending_store (m_id pending_meeting) = Some pending_meeting
   \<and> reaches_lookup sample_env pending_store pending_meeting sample_user
   \<and> no_readable_document sample_env pending_meeting sample_user
   \<and> fst (process_meeting sample_env pending_store pending_meeting 60) = False
   \<and> Meeting_find_by_id (snd (process_meeting sample_env pending_store pending_meeting 60)) 1 =
       Some (pending_meeting\<lparr>m_processing_status := ''failed'', m_updated_at := 60,
              m_error_message := Some ''No transcript or Gemini notes found in Google Drive''\<rparr>)
   \<and> writes (snd (process_meeting sample_env pending_store pending_meeting 60)) =
       [MeetingStatus 1 ''processing'', MeetingStatus 1 ''failed'']
   \<and> fst (process_meeting_body no_key_env pending_store pending_meeting 60) =
       Inl (ValueError ''GEMINI_API_KEY not found in environment variables'')
   \<and> fst (process_meeting no_key_env pending_store pending_meeting 60) = False
   \<and> m_processing_status
       (the (Meeting_find_by_id
         (snd (process_meeting no_key_env pending_store pending_meeting 60)) 1)) = ''failed''"
proof -
  have id: "m_id pending_meeting = 1"
    by (simp add: pending_meeting_def sample_meeting_def)
  have w0: "writes pending_store = []"
    by (simp add: pending_store_def sample_store_def)
  note a = failed_lookup_ends_failed [OF pending_meeting_stored,
      of sample_env sample_user 60 undefined]
  note b = failed_lookup_ends_failed [OF pending_meeting_stored,
      of no_key_env sample_user 60
        "ValueError ''GEMINI_API_KEY not found in environment variables''"]
  from a [THEN conjunct1, rule_format, OF conjI [OF pending_reaches_lookup pending_no_document(1)]]
    b [THEN conjunct2, THEN conjunct1, rule_format, OF no_key_raises]
    pending_meeting_stored pending_reaches_lookup pending_no_document no_key_raises id w0
  show ?thesis by simp
qed



subsection \<open>The owner of a created task\<close>

lemma create_meeting_tasks_take [simp]:
  assumes "tasks d3 = ts"
  shows "take (length ts) (tasks (snd (create_meeting_tasks d3 items idx m usr now c))) = ts"
  using create_meeting_tasks_new [of d3 items idx m usr now c] assms by auto

lemma create_meeting_tasks_owned [simp]:
  assumes "tasks d3 = ts"
  shows "(\<forall>t \<in> set (drop (length ts) (tasks (snd (create_meeting_tasks d3 items idx m usr now c)))).
           t_user_email t = u_email usr) = True"
  using create_meeting_tasks_new [of d3 items idx m usr now c] assms by auto

lemma create_email_tasks_take [simp]:
  assumes "tasks d3 = ts"
  shows "take (length ts)
           (tasks (snd (create_email_tasks d3 xs email sender usr labels now c))) = ts"
  using create_email_tasks_new [of d3 xs email sender usr labels now c] assms by auto

lemma create_email_tasks_owned [simp]:
  assumes "tasks d3 = ts" and "u_email usr = e"
  shows "(\<forall>t \<in> set (drop (length ts)
                      (tasks (snd (create_email_tasks d3 xs email sender usr labels now c)))).
           t_user_email t = e) = True"
  using create_email_tasks_new [of d3 xs email sender usr labels now c] assms by auto

lemma body_tasks_take:
  "take (length (tasks d)) (tasks (snd (process_meeting_body w d m now))) = tasks d"
  by (simp add: process_meeting_body_def Let_def split_beta
      split: option.splits sum.splits)

lemma body_tasks_owned:
  "\<forall>t \<in> set (drop (length (tasks d)) (tasks (snd (process_meeting_body w d m now)))).
     \<exists>owner. User_find_by_id d (m_user_id m) = Some owner \<and> t_user_email t = u_email owner"
  by (simp add: process_meeting_body_def Let_def split_beta
      split: option.splits sum.splits)

lemma process_meeting_tasks:
  "tasks (snd (process_meeting w d m now)) = tasks (snd (process_meeting_body w d m now))"
  by (simp add: process_meeting_def split_beta split: sum.splits)

lemma email_tasks_take:
  "take (length (tasks d)) (tasks (snd (process_email_for_tasks w d msg usr now))) = tasks d"
  by (simp add: process_email_for_tasks_def Let_def split_beta
      split: option.splits sum.splits)

lemma email_tasks_owned:
  "\<forall>t \<in> set (drop (length (tasks d)) (tasks (snd (process_email_for_tasks w d msg usr now)))).
     t_user_email t = u_email usr"
  by (simp add: process_email_for_tasks_def Let_def split_beta
      split: option.splits sum.splits)



lemma fst_MeetingTranscript_create:
  "fst (MeetingTranscript_create d i u t now) =
     (if find (\<lambda>x. mt_meeting_id x = i) (meeting_transcripts d) \<noteq> None
      then Inl (DuplicateKeyError ''E11000 duplicate key error'') else Inr ())"
  by (simp add: MeetingTranscript_create_def)

lemma fst_MeetingSummary_create:
  "fst (MeetingSummary_create d i u a b c e f g h now) =
     (if find (\<lambda>x. ms_meeting_id x = i) (meeting_summaries d) \<noteq> None
      then Inl (DuplicateKeyError ''E11000 duplicate key error'') else Inr ())"
  by (simp add: MeetingSummary_create_def)

lemma map_const_replicate:
  "\<forall>x \<in> set xs. f x = c \<Longrightarrow> map f xs = replicate (length xs) c"
  by (induction xs) auto

lemma create_meeting_tasks_columns:
  "map t_deadline (tasks (snd (create_meeting_tasks d items idx m usr now c))) =
     map t_deadline (tasks d) @ map item_deadline (filter task_made_from items)
 \<and> map t_user_email (tasks (snd (create_meeting_tasks d items idx m usr now c))) =
     map t_user_email (tasks d) @
     replicate (length (filter task_made_from items)) (u_email usr)"
proof -
  from create_meeting_tasks_new [of d items idx m usr now c] obtain new where
    t: "tasks (snd (create_meeting_tasks d items idx m usr now c)) = tasks d @ new"
    and o: "\<forall>t \<in> set new. t_user_email t = u_email usr"
    and dl: "map t_deadline new = map item_deadline (filter task_made_from items)"
    by blast
  from dl have "length new = length (filter task_made_from items)"
    by (metis length_map)
  with map_const_replicate [OF o] t dl show ?thesis by simp
qed

lemma process_meeting_success:
  assumes "reaches_lookup w d m usr"
    and "drive_find_recording w usr (m_title m) (m_start_time m) = Some f"
    and "drive_document_text w usr (df_id f) = Some text" and "text \<noteq> []"
    and "find (\<lambda>x. mt_meeting_id x = m_id m) (meeting_transcripts d) = None"
    and "summarize_meeting_transcript w text (m_title m) (m_attendees m) = Inr (Some sd)"
    and "sd \<noteq> []" and "map_of sd ''summary'' = Some s"
    and "find (\<lambda>x. ms_meeting_id x = m_id m) (meeting_summaries d) = None"
    and "py_iter (dict_get_default sd ''action_items'' (PList [])) = Inr items"
  shows "fst (process_meeting w d m now)
       \<and> map t_deadline (tasks (snd (process_meeting w d m now))) =
           map t_deadline (tasks d) @ map item_deadline (filter task_made_from items)
       \<and> map t_user_email (tasks (snd (process_meeting w d m now))) =
           map t_user_email (tasks d) @
           replicate (length (filter task_made_from items)) (u_email usr)"
  using assms
  by (simp add: process_meeting_def process_meeting_body_def Let_def split_beta
      reaches_lookup_def fst_MeetingTranscript_create fst_MeetingSummary_create
      create_meeting_tasks_columns)



subsection \<open>Processing the sample meeting and the sample email\<close>

lemma check_item_deadline_cong:
  "strptime w' = strptime w \<Longrightarrow> check_item_deadline w' item = check_item_deadline w item"
  by (auto simp: check_item_deadline_def split: pyval.splits option.splits)

lemma process_action_items_cong:
  "strptime w' = strptime w \<Longrightarrow> process_action_items w' xs = process_action_items w xs"
proof (induction w xs rule: process_action_items.induct)
  case (2 w item rest)
  then show ?case
    by (auto simp: Let_def check_item_deadline_cong [of w' w] split: sum.splits)
qed simp_all

lemma parse_meeting_summary_response_cong:
  assumes "json_loads w' = json_loads w" and "strptime w' = strptime w"
  shows "parse_meeting_summary_response w' t = parse_meeting_summary_response w t"
proof -
  have p: "\<And>xs. process_action_items w' xs = process_action_items w xs"
    using assms(2) by (rule process_action_items_cong)
  show ?thesis
    unfolding parse_meeting_summary_response_def p assms(1) by (rule refl)
qed

lemma summarize_notes:
  "summarize_meeting_transcript notes_env summary_text title (PList []) = Inr (Some summary_parsed)"
proof -
  have "parse_meeting_summary_response notes_env summary_text = Some summary_parsed"
    using parse_meeting_summary_response_cong [of notes_env sample_env summary_text]
      parse_summary_text
    by (simp add: notes_env_def)
  then show ?thesis
    by (simp add: summarize_meeting_transcript_def attendees_list_def py_iter_def py_or_def
        notes_env_def sample_env_def)
qed

lemma notes_reaches_lookup:
  "reaches_lookup notes_env pending_store pending_meeting sample_user"
  by (simp add: reaches_lookup_def notes_env_def sample_env_def User_find_by_id_def
      pending_store_def sample_store_def pending_meeting_def sample_meeting_def
      sample_user_def)

lemma notes_document:
  "drive_find_recording notes_env sample_user (m_title pending_meeting)
     (m_start_time pending_meeting) =
     Some \<lparr>df_id = ''doc-1'', df_name = ''Weekly sync - Notes by Gemini''\<rparr>"
  "drive_document_text notes_env sample_user
     (df_id \<lparr>df_id = ''doc-1'', df_name = ''Weekly sync - Notes by Gemini''\<rparr>) =
     Some summary_text"
  "summary_text \<noteq> []"
  by (simp_all add: notes_env_def sample_env_def summary_text_def)

lemma pending_store_empty:
  "find (\<lambda>x. mt_meeting_id x = m_id pending_meeting) (meeting_transcripts pending_store) = None"
  "find (\<lambda>x. ms_meeting_id x = m_id pending_meeting) (meeting_summaries pending_store) = None"
  "tasks pending_store = []"
  by (simp_all add: pending_store_def sample_store_def)

lemma summary_parsed_items:
  "summary_parsed \<noteq> []"
  "map_of summary_parsed ''summary'' = Some (PStr ''Sync'')"
  "py_iter (dict_get_default summary_parsed ''action_items'' (PList [])) = Inr summary_items"
  by (simp_all add: summary_parsed_def dict_get_default_def py_iter_def)

lemma summary_items_made:
  "filter task_made_from summary_items = summary_items"
  "map item_deadline summary_items = [PStr [], PNone, PStr ''2025-11-22'']"
  by (simp_all add: summary_items_def task_made_from_def py_slice100_def item_deadline_def
      dict_get_def)

lemma notes_run:
  "fst (process_meeting notes_env pending_store pending_meeting 60)
   \<and> map t_deadline (tasks (snd (process_meeting notes_env pending_store pending_meeting 60))) =
       [PStr [], PNone, PStr ''2025-11-22'']
   \<and> map t_user_email (tasks (snd (process_meeting notes_env pending_store pending_meeting 60))) =
       [Some ''ann@example.com'', Some ''ann@example.com'', Some ''ann@example.com'']"
proof -
  have a: "m_attendees pending_meeting = PList []"
    by (simp add: pending_meeting_def sample_meeting_def)
  have u: "u_email sample_user = Some ''ann@example.com''"
    by (simp add: sample_user_def)
  have l: "length summary_items = 3"
    by (simp add: summary_items_def)
  from process_meeting_success [OF notes_reaches_lookup notes_document
      pending_store_empty(1) _ summary_parsed_items(1,2) pending_store_empty(2)
      summary_parsed_items(3), of 60]
    summarize_notes [of "m_title pending_meeting"] a
  show ?thesis
    by (simp add: summary_items_made pending_store_empty(3) u l numeral_3_eq_3)
qed

text \<open>
  C4, where the code departs from it. An action item whose deadline is the empty string
  leaves \<open>_parse_meeting_summary_response\<close> with that string in place (the loop has no
  \<open>else\<close> branch for a deadline that is not true), and the task made from it is stored
  with the deadline \<open>''\<close>. The email loop sets such a deadline to \<open>None\<close>.
\<close>

theorem empty_deadline_reaches_task:
  "parse_meeting_summary_response sample_env summary_text = Some summary_parsed
   \<and> map item_deadline summary_items = [PStr [], PNone, PStr ''2025-11-22'']
   \<and> map t_deadline (tasks (snd (process_meeting notes_env pending_store pending_meeting 60))) =
       [PStr [], PNone, PStr ''2025-11-22'']
   \<and> parse_task_deadline sample_env [(''deadline'', PStr [])] = Inr [(''deadline'', PNone)]"
  using parse_summary_text summary_items_made(2) notes_run
  by (simp add: parse_task_deadline_def dict_get_def)



lemma task_message_parsed:
  "parse_email task_message =
     \<lparr>ed_message_id = ''msg-task'', ed_subject = ''Report'',
      ed_from = ''Bob <bob@example.com>'', ed_date = [], ed_body = extraction_text\<rparr>"
  by (simp add: parse_email_def task_message_def header_value_def)

lemma task_message_extracted:
  "extract_task_from_email sample_env ''Report'' extraction_text = Some extraction_parsed"
proof -
  have "generate_extraction sample_env ''Report'' extraction_text = Inr extraction_text"
    by (simp add: sample_env_def)
  then show ?thesis
    by (simp add: extract_task_from_email_def parse_extraction_text)
qed

lemma extraction_parsed_tasks:
  "extraction_parsed \<noteq> []"
  "truthy (dict_get_default extraction_parsed ''has_task'' (PBool False))"
  "dict_get_default extraction_parsed ''tasks'' (PList []) = PList extraction_validated"
  "extraction_validated \<noteq> []"
  by (simp_all add: extraction_parsed_def dict_get_default_def extraction_validated_def)

lemma sample_store_empty:
  "tasks sample_store = []"
  "\<not> is_processed sample_store i u"
  by (simp_all add: sample_store_def is_processed_def find_processed_def)

lemma task_message_run:
  "map t_user_email
     (tasks (snd (process_email_for_tasks sample_env sample_store task_message sample_user 60))) =
     [Some ''ann@example.com'', Some ''ann@example.com'']"
proof -
  have g: "gemini_init sample_env = None"
    by (simp add: sample_env_def)
  have u: "u_email sample_user = Some ''ann@example.com''"
    by (simp add: sample_user_def)
  have o: "lower (extract_sender_email ''Bob <bob@example.com>'') \<noteq> lower ''ann@example.com''"
    using bob_is_not_ann by (simp add: u)
  have c: "map t_user_email
      (tasks (snd (create_email_tasks sample_store extraction_validated
         \<lparr>ed_message_id = ''msg-task'', ed_subject = ''Report'',
           ed_from = ''Bob <bob@example.com>'', ed_date = [], ed_body = extraction_text\<rparr>
         (extract_sender_email ''Bob <bob@example.com>'') sample_user
         (dict_get_default extraction_parsed ''labels'' (PList [])) 60 0))) =
      [Some ''ann@example.com'', Some ''ann@example.com'']"
    by (simp add: extraction_validated_def split_beta sample_store_empty u)
  show ?thesis
    using o c
    by (simp add: process_email_for_tasks_def Let_def split_beta task_message_parsed
        sample_store_empty g u task_message_extracted extraction_parsed_tasks py_iter_def
        split: sum.splits)
qed

text \<open>
  C9. The tasks an email pass adds to the store all carry the \<open>user_email\<close> of the user
  the email was fetched for; the tasks a meeting run adds all carry the \<open>user_email\<close> of
  the stored user who owns the meeting. Neither routine changes or removes a task that
  was stored before.
\<close>

theorem created_tasks_carry_owner_email:
  "(\<exists>new. tasks (snd (process_email_for_tasks w d msg usr now)) = tasks d @ new
         \<and> (\<forall>t \<in> set new. t_user_email t = u_email usr))
 \<and> (\<exists>new. tasks (snd (process_meeting w' d' m now')) = tasks d' @ new
         \<and> (\<forall>t \<in> set new.
               \<exists>owner. User_find_by_id d' (m_user_id m) = Some owner
                     \<and> t_user_email t = u_email owner))"
proof
  let ?e = "tasks (snd (process_email_for_tasks w d msg usr now))"
  have "?e = take (length (tasks d)) ?e @ drop (length (tasks d)) ?e"
    by simp
  then have "?e = tasks d @ drop (length (tasks d)) ?e"
    by (simp only: email_tasks_take)
  with email_tasks_owned [of d w msg usr now]
  show "\<exists>new. ?e = tasks d @ new \<and> (\<forall>t \<in> set new. t_user_email t = u_email usr)"
    by blast
next
  let ?m = "tasks (snd (process_meeting w' d' m now'))"
  have eq: "?m = tasks (snd (process_meeting_body w' d' m now'))"
    by (rule process_meeting_tasks)
  have "?m = take (length (tasks d')) ?m @ drop (length (tasks d')) ?m"
    by simp
  then have "?m = tasks d' @ drop (length (tasks d')) ?m"
    by (simp only: eq body_tasks_take)
  with body_tasks_owned [of d' w' m now'] eq
  show "\<exists>new. ?m = tasks d' @ new
         \<and> (\<forall>t \<in> set new.
               \<exists>owner. User_find_by_id d' (m_user_id m) = Some owner
                     \<and> t_user_email t = u_email owner)"
    by metis
qed

theorem created_tasks_carry_owner_email_witness:
  "(\<exists>new. tasks (snd (process_email_for_tasks sample_env sample_store task_message
                        sample_user 60)) = tasks sample_store @ new
         \<and> (\<forall>t \<in> set new. t_user_email t = u_email sample_user))
   \<and> (\<exists>new. tasks (snd (process_meeting notes_env pending_store pending_meeting 60)) =
           tasks pending_store @ new
         \<and> (\<forall>t \<in> set new.
               \<exists>owner. User_find_by_id pending_store (m_user_id pending_meeting) = Some owner
                     \<and> t_user_email t = u_email owner))
   \<and> map t_user_email
       (tasks (snd (process_email_for_tasks sample_env sample_store task_message
                      sample_user 60))) =
       [Some ''ann@example.com'', Some ''ann@example.com'']
   \<and> map t_user_email
       (tasks (snd (process_meeting notes_env pending_store pending_meeting 60))) =
       [Some ''ann@example.com'', Some ''ann@example.com'', Some ''ann@example.com'']
   \<and> u_email sample_user = Some ''ann@example.com''
   \<and> User_find_by_id pending_store (m_user_id pending_meeting) = Some sample_user"
proof -
  have u: "u_email sample_user = Some ''ann@example.com''"
    by (simp add: sample_user_def)
  have f: "User_find_by_id pending_store (m_user_id pending_meeting) = Some sample_user"
    by (simp add: User_find_by_id_def pending_store_def sample_store_def pending_meeting_def
        sample_meeting_def sample_user_def)
  from created_tasks_carry_owner_email [where w = sample_env and d = sample_store
      and msg = task_message and usr = sample_user and now = 60 and w' = notes_env
      and d' = pending_store and m = pending_meeting and now' = 60]
    task_message_run notes_run u f
  show ?thesis by blast
qed



subsection \<open>The checkpoint of a poll pass\<close>

lemma process_email_for_tasks_keeps:
  "users (snd (process_email_for_tasks w d msg usr now)) = users d
 \<and> writes (snd (process_email_for_tasks w d msg usr now)) = writes d"
  by (simp add: process_email_for_tasks_def Let_def split_beta
      split: option.splits sum.splits)

lemma process_emails_keeps:
  "users (process_emails w d emails usr now) = users d
 \<and> writes (process_emails w d emails usr now) = writes d"
  by (induction emails arbitrary: d) (simp_all add: process_email_for_tasks_keeps)

lemma Meeting_create_keeps:
  "users (snd (Meeting_create d ev u title descr st en att link now)) = users d
 \<and> writes (snd (Meeting_create d ev u title descr st en att link now)) = writes d"
  by (simp add: Meeting_create_def Let_def)

lemma add_new_meetings_keeps:
  "users (add_new_meetings d events usr now) = users d
 \<and> writes (add_new_meetings d events usr now) = writes d"
  by (induction events arbitrary: d) (simp_all add: Meeting_create_keeps)

text \<open>
  With a stored user whose Gmail service can be built and whose fetch returns at least
  one message, the email routine writes the checkpoint once, whatever happens to the
  messages; with an empty fetch it writes nothing.
\<close>

lemma check_user_emails_writes:
  assumes "User_find_by_id d (u_id usr) = Some u0"
    and "u_gmail_refresh_token usr \<noteq> None" and "u_gmail_refresh_token usr \<noteq> Some []"
    and "gmail_build w usr = None"
    and "gmail_emails_since w usr (case u_last_email_check usr of None \<Rightarrow> now - 300 | Some t \<Rightarrow> t)
           = Inr emails"
  shows "writes (check_user_emails w d usr now) =
           writes d @ (if emails = [] then [] else [EmailCheckpoint (u_id usr) now])"
  using assms
  by (auto simp: check_user_emails_def Let_def update_last_email_check_def User_find_by_id_def
      process_emails_keeps)

text \<open>
  With a stored user whose Calendar service can be built and whose fetch returns, the
  meeting routine writes the checkpoint once, also when no event was found.
\<close>

lemma check_user_meetings_writes:
  assumes "User_find_by_id d (u_id usr) = Some u0"
    and "u_calendar_tokens usr \<noteq> None" and "u_calendar_tokens usr \<noteq> Some []"
    and "calendar_build_ok w usr"
    and "calendar_past_meet_events w usr = Inr events"
  shows "writes (check_user_meetings w d usr now) =
           writes d @ [MeetingCheckpoint (u_id usr) now]"
  using assms
  by (auto simp: check_user_meetings_def update_last_meeting_check_def User_find_by_id_def
      add_new_meetings_keeps)

text \<open>
  C2, where the code departs from it. The sample user's mailbox has no new message: the
  email routine returns at \<open>if not emails\<close> and leaves the store as it was, with
  \<open>last_email_check\<close> still 50 and no checkpoint write. The meeting routine, for the same
  user and an empty calendar fetch, writes \<open>last_meeting_check\<close> once.
\<close>

theorem empty_fetch_skips_email_checkpoint:
  "gmail_emails_since sample_env sample_user 50 = Inr []
   \<and> check_user_emails sample_env sample_store sample_user 60 = sample_store
   \<and> map u_last_email_check (users (check_user_emails sample_env sample_store sample_user 60)) =
       [Some 50]
   \<and> writes (check_user_emails sample_env sample_store sample_user 60) = []
   \<and> calendar_past_meet_events sample_env sample_user = Inr []
   \<and> map u_last_meeting_check
       (users (check_user_meetings sample_env sample_store sample_user 60)) = [Some 60]
   \<and> writes (check_user_meetings sample_env sample_store sample_user 60) =
       [MeetingCheckpoint 7 60]"
proof -
  have e: "check_user_emails sample_env sample_store sample_user 60 = sample_store"
    by (simp add: check_user_emails_def sample_env_def sample_user_def)
  have m: "check_user_meetings sample_env sample_store sample_user 60 =
      update_last_meeting_check sample_store 7 60"
    by (simp add: check_user_meetings_def sample_env_def sample_user_def)
  have s: "users sample_store = [sample_user]" "writes sample_store = []"
    by (simp_all add: sample_store_def)
  have c: "u_last_email_check sample_user = Some 50" "u_id sample_user = 7"
    by (simp_all add: sample_user_def)
  show ?thesis
    by (simp add: e m s c update_last_meeting_check_def User_find_by_id_def)
       (simp add: sample_env_def)
qed


end
